theory Spec2Isabelle
  imports Main "HOL-Library.Multiset"
begin

section \<open>Exceptions and results\<close>

text \<open>
  The exception classes the resolution code meets, each with its message. All of them
  derive from Python's \<open>Exception\<close>, the class every handler of the source names;
  \<open>TimeoutExpired\<close> is a subclass of \<open>SubprocessError\<close>. A computation that may
  raise has the type \<open>exn + 'a\<close>: \<open>Inl e\<close> is the raised exception.
\<close>

datatype exn =
    ImportError string
  | TimeoutExpired string
  | SubprocessError string
  | HTTPError string
  | ValueError string
  | TypeError string
  | OtherException string

fun str_exn :: "exn \<Rightarrow> string" where
  "str_exn (ImportError m) = m"
| "str_exn (TimeoutExpired m) = m"
| "str_exn (SubprocessError m) = m"
| "str_exn (HTTPError m) = m"
| "str_exn (ValueError m) = m"
| "str_exn (TypeError m) = m"
| "str_exn (OtherException m) = m"

fun is_SubprocessError :: "exn \<Rightarrow> bool" where
  "is_SubprocessError (TimeoutExpired m) = True"
| "is_SubprocessError (SubprocessError m) = True"
| "is_SubprocessError e = False"

section \<open>Strings\<close>

text \<open>
  A Python string is a sequence of code points. Here a string is the list of its code
  points, taken below 256: a \<open>char\<close> stands for the code point of its number. Among these
  code points, letter case outside ASCII touches only \<open>str.lower\<close> (\<open>re.IGNORECASE\<close> pairs
  no code point from 128 to 255 with an ASCII letter).
\<close>

definition dquote :: char where
  "dquote = CHR 0x22"

definition squote :: char where
  "squote = CHR 0x27"

definition is_quote :: "char \<Rightarrow> bool" where
  "is_quote c = (c = dquote \<or> c = squote)"

text \<open>
  The code points below 256 that the regular expression class \<open>\s\<close> matches in a \<open>str\<close>
  pattern: the ASCII blanks and separators, U+0085 and U+00A0.
\<close>

definition is_space :: "char \<Rightarrow> bool" where
  "is_space c = (c \<in> set [CHR 0x09, CHR 0x0A, CHR 0x0B, CHR 0x0C, CHR 0x0D,
                            CHR 0x1C, CHR 0x1D, CHR 0x1E, CHR 0x1F, CHR 0x20,
                            CHR 0x85, CHR 0xA0])"

definition startswith :: "string \<Rightarrow> string \<Rightarrow> bool" where
  "startswith s p = (take (length p) s = p)"

definition endswith :: "string \<Rightarrow> string \<Rightarrow> bool" where
  "endswith s p = (length p \<le> length s \<and> drop (length s - length p) s = p)"

text \<open>\<open>sub in s\<close> on strings.\<close>

fun contains :: "string \<Rightarrow> string \<Rightarrow> bool" where
  "contains [] sub = (sub = [])"
| "contains (c # cs) sub = (startswith (c # cs) sub \<or> contains cs sub)"

text \<open>
  \<open>str.lower\<close> on code points below 256: the ASCII capitals, and the capitals from U+00C0
  to U+00DE without the multiplication sign U+00D7.
\<close>

definition upper_latin1 :: string where
  "upper_latin1 =
     ''ABCDEFGHIJKLMNOPQRSTUVWXYZ''
     @ [CHR 0xC0, CHR 0xC1, CHR 0xC2, CHR 0xC3, CHR 0xC4, CHR 0xC5,
        CHR 0xC6, CHR 0xC7, CHR 0xC8, CHR 0xC9, CHR 0xCA, CHR 0xCB,
        CHR 0xCC, CHR 0xCD, CHR 0xCE, CHR 0xCF, CHR 0xD0, CHR 0xD1,
        CHR 0xD2, CHR 0xD3, CHR 0xD4, CHR 0xD5, CHR 0xD6, CHR 0xD8,
        CHR 0xD9, CHR 0xDA, CHR 0xDB, CHR 0xDC, CHR 0xDD, CHR 0xDE]"

definition lower_latin1 :: string where
  "lower_latin1 =
     ''abcdefghijklmnopqrstuvwxyz''
     @ [CHR 0xE0, CHR 0xE1, CHR 0xE2, CHR 0xE3, CHR 0xE4, CHR 0xE5,
        CHR 0xE6, CHR 0xE7, CHR 0xE8, CHR 0xE9, CHR 0xEA, CHR 0xEB,
        CHR 0xEC, CHR 0xED, CHR 0xEE, CHR 0xEF, CHR 0xF0, CHR 0xF1,
        CHR 0xF2, CHR 0xF3, CHR 0xF4, CHR 0xF5, CHR 0xF6, CHR 0xF8,
        CHR 0xF9, CHR 0xFA, CHR 0xFB, CHR 0xFC, CHR 0xFD, CHR 0xFE]"

definition lower_char :: "char \<Rightarrow> char" where
  "lower_char c =
     (case map_of (zip upper_latin1 lower_latin1) c of
        Some l \<Rightarrow> l
      | None \<Rightarrow> c)"

definition lower :: "string \<Rightarrow> string" where
  "lower s = map lower_char s"

text \<open>\<open>s.strip(chars)\<close>, with the set of characters given as a predicate.\<close>

definition strip :: "(char \<Rightarrow> bool) \<Rightarrow> string \<Rightarrow> string" where
  "strip p s = rev (dropWhile p (rev (dropWhile p s)))"

text \<open>Python's truth value of an attribute lookup: \<open>None\<close> and the empty string are false.\<close>

fun truthy :: "string option \<Rightarrow> bool" where
  "truthy None = False"
| "truthy (Some s) = (s \<noteq> [])"

section \<open>Removing duplicates: \<open>list(set(potential_urls))\<close>\<close>

text \<open>
  Both extractors end with \<open>list(set(potential_urls))\<close>. A Python set keeps each element
  once, in a slot of a hash table, and iterates over the slots in index order. Where an
  element lands depends on its hash (for strings, salted anew in every process) and, when
  two elements collide, on the order of insertion. The layout is therefore a parameter:
  \<open>slot xs u\<close> is the index of the slot that holds \<open>u\<close> once the elements of \<open>xs\<close> have
  been inserted in order.
\<close>

definition list_set :: "('a list \<Rightarrow> 'a \<Rightarrow> nat) \<Rightarrow> 'a list \<Rightarrow> 'a list" where
  "list_set slot xs = sort_key (slot xs) (remdups xs)"

text \<open>
  The Deduplicator as the specification words it: every element once, at the place of its
  earliest occurrence.
\<close>

definition spec_deduplicate :: "'a list \<Rightarrow> 'a list" where
  "spec_deduplicate xs = rev (remdups (rev xs))"

text \<open>Two layouts a run can have.\<close>

definition slot_by_length :: "string list \<Rightarrow> string \<Rightarrow> nat" where
  "slot_by_length xs u = length u"

text \<open>
  Every element has home slot 5 of 8; the first one inserted takes it, a later one finds it
  taken and is sent on to slot 2 (\<open>(5 * 5 + 1) mod 8\<close>, the next probe of the table).
\<close>

definition slot_colliding :: "string list \<Rightarrow> string \<Rightarrow> nat" where
  "slot_colliding xs u = (case xs of [] \<Rightarrow> 5 | x # _ \<Rightarrow> if u = x then 5 else 2)"

section \<open>The environment\<close>

text \<open>
  What the code reaches outside itself, as functions of their arguments: the yt-dlp module,
  the subprocess, the HTTP transport, the HTML and JSON parsers, \<open>urljoin\<close> and the layout
  of sets.
\<close>

record response =
  status_code :: nat
  resp_text :: string
  resp_url :: string

record video_tag =
  video_src :: "string option"
  video_sources :: "string option list"

record script_tag =
  script_type :: "string option"
  script_string :: "string option"

record a_tag =
  a_href :: "string option"
  a_text :: string

record soup =
  videos :: "video_tag list"
  iframes :: "string option list"
  scripts :: "script_tag list"
  anchors :: "a_tag list"

datatype json =
    JNull
  | JBool bool
  | JNumber int
  | JString string
  | JArray "json list"
  | JObject "(string \<times> json) list"

record env =
  import_yt_dlp :: "exn + unit"
  extract_info :: "string \<Rightarrow> exn + bool"
  subprocess_run :: "string list \<Rightarrow> nat \<Rightarrow> exn + (int \<times> string)"
  requests_get :: "string \<Rightarrow> exn + response"
  BeautifulSoup :: "string \<Rightarrow> soup"
  json_loads :: "string \<Rightarrow> exn + json"
  urljoin :: "string \<Rightarrow> string \<Rightarrow> exn + string"
  set_slot :: "string list \<Rightarrow> string \<Rightarrow> nat"

section \<open>A model of \<open>urllib.parse.urljoin\<close>\<close>

text \<open>
  \<open>urljoin\<close> belongs to Python's standard library, not to the repository, so the extractors
  take it from the environment. The functions below follow the library's \<open>urlsplit\<close>,
  \<open>urlparse\<close>, \<open>urlunparse\<close> and \<open>urljoin\<close> (reference resolution after RFC 3986) on
  strings of code points below 256, as Python 3.11.10 has them; they give the concrete
  environments of this theory their \<open>urljoin\<close>. A bracketed host has to be an IPvFuture
  or an IPv6 literal (\<open>_check_bracketed_host\<close>, with the parsers of the \<open>ipaddress\<close>
  module); of an address only the validity is computed, not the value. The library's
  last check, \<open>_checknetloc\<close>, refuses a host outside ASCII whose NFKC form holds one of
  \<open>/?#@:\<close>: no code point below 256 has such a form, so the check never fails here.
\<close>

definition uses_relative :: "string list" where
  "uses_relative = ['''', ''ftp'', ''http'', ''gopher'', ''nntp'', ''imap'', ''wais'', ''file'',
     ''https'', ''shttp'', ''mms'', ''prospero'', ''rtsp'', ''rtsps'', ''rtspu'', ''sftp'',
     ''svn'', ''svn+ssh'', ''ws'', ''wss'']"

definition uses_netloc :: "string list" where
  "uses_netloc = ['''', ''ftp'', ''http'', ''gopher'', ''nntp'', ''telnet'', ''imap'', ''wais'',
     ''file'', ''mms'', ''https'', ''shttp'', ''snews'', ''prospero'', ''rtsp'', ''rtsps'',
     ''rtspu'', ''rsync'', ''svn'', ''svn+ssh'', ''sftp'', ''nfs'', ''git'', ''git+ssh'',
     ''ws'', ''wss'']"

definition uses_params :: "string list" where
  "uses_params = ['''', ''ftp'', ''hdl'', ''prospero'', ''http'', ''imap'', ''https'', ''shttp'',
     ''rtsp'', ''rtsps'', ''rtspu'', ''sip'', ''sips'', ''mms'', ''sftp'', ''tel'']"

definition scheme_chars :: string where
  "scheme_chars = ''abcdefghijklmnopqrstuvwxyzABCDEFGHIJKLMNOPQRSTUVWXYZ0123456789+-.''"

definition is_c0_or_space :: "char \<Rightarrow> bool" where
  "is_c0_or_space c = (of_char c \<le> (32 :: nat))"

definition is_ascii_alpha :: "char \<Rightarrow> bool" where
  "is_ascii_alpha c = (c \<in> set ''abcdefghijklmnopqrstuvwxyzABCDEFGHIJKLMNOPQRSTUVWXYZ'')"

text \<open>\<open>s.partition(c)\<close> without the separator: the text before the first \<open>c\<close>, and
  the text after it when there is one.\<close>

definition split_first :: "char \<Rightarrow> string \<Rightarrow> string \<times> string option" where
  "split_first c s =
     (case dropWhile (\<lambda>x. x \<noteq> c) s of
        [] \<Rightarrow> (s, None)
      | _ # rest \<Rightarrow> (takeWhile (\<lambda>x. x \<noteq> c) s, Some rest))"

fun split_on :: "char \<Rightarrow> string \<Rightarrow> string list" where
  "split_on c [] = [[]]"
| "split_on c (x # xs) =
     (if x = c then [] # split_on c xs
      else (case split_on c xs of [] \<Rightarrow> [[x]] | y # ys \<Rightarrow> (x # y) # ys))"

fun join_on :: "char \<Rightarrow> string list \<Rightarrow> string" where
  "join_on c [] = []"
| "join_on c [s] = s"
| "join_on c (s # ss) = s @ c # join_on c ss"

text \<open>\<open>IPv4Address._parse_octet\<close>: one to three decimal digits, no leading zero, at most 255.\<close>

definition digit_value :: "char \<Rightarrow> nat" where
  "digit_value c = length (takeWhile (\<lambda>d. d \<noteq> c) ''0123456789'')"

definition parse_octet_ok :: "string \<Rightarrow> bool" where
  "parse_octet_ok octet_str =
     (if octet_str = [] then False
      else if \<not> list_all (\<lambda>c. c \<in> set ''0123456789'') octet_str then False
      else if length octet_str > 3 then False
      else if octet_str \<noteq> ''0'' \<and> take 1 octet_str = ''0'' then False
      else foldl (\<lambda>n c. 10 * n + digit_value c) 0 octet_str \<le> 255)"

definition ipv4_address_ok :: "string \<Rightarrow> bool" where
  "ipv4_address_ok addr_str =
     (if CHR ''/'' \<in> set addr_str then False
      else if addr_str = [] then False
      else if length (split_on CHR ''.'' addr_str) \<noteq> 4 then False
      else list_all parse_octet_ok (split_on CHR ''.'' addr_str))"

text \<open>\<open>IPv6Address._parse_hextet\<close>: one to four hexadecimal digits.\<close>

definition parse_hextet_ok :: "string \<Rightarrow> bool" where
  "parse_hextet_ok hextet_str =
     (if \<not> list_all (\<lambda>c. c \<in> set ''0123456789ABCDEFabcdef'') hextet_str then False
      else if length hextet_str > 4 then False
      else hextet_str \<noteq> [])"

text \<open>
  \<open>IPv6Address._ip_int_from_string\<close>. A dotted last part has to be an IPv4 address; the two
  hextets that take its place are written \<open>0\<close> here. \<open>skips\<close> are the indices of the empty
  parts between the first and the last.
\<close>

definition ipv6_parts_ok :: "string list \<Rightarrow> bool" where
  "ipv6_parts_ok parts =
     (if length parts > 9 then False
      else (case filter (\<lambda>i. parts ! i = []) [1 ..< length parts - 1] of
              [] \<Rightarrow>
                if length parts \<noteq> 8 then False
                else if take 1 parts = [[]] then False
                else if last parts = [] then False
                else list_all parse_hextet_ok parts
            | [skip_index] \<Rightarrow>
                (let parts_hi = (if take 1 parts = [[]] then skip_index - 1 else skip_index);
                     parts_lo = (if last parts = [] then length parts - skip_index - 1 - 1
                                 else length parts - skip_index - 1)
                 in if take 1 parts = [[]] \<and> parts_hi \<noteq> 0 then False
                    else if last parts = [] \<and> parts_lo \<noteq> 0 then False
                    else if 8 \<le> parts_hi + parts_lo then False
                    else list_all parse_hextet_ok (take parts_hi parts)
                         \<and> list_all parse_hextet_ok (drop (length parts - parts_lo) parts))
            | _ \<Rightarrow> False))"

definition ipv6_string_ok :: "string \<Rightarrow> bool" where
  "ipv6_string_ok ip_str =
     (if ip_str = [] then False
      else if length (split_on CHR '':'' ip_str) < 3 then False
      else if CHR ''.'' \<in> set (last (split_on CHR '':'' ip_str))
      then (if ipv4_address_ok (last (split_on CHR '':'' ip_str))
            then ipv6_parts_ok (butlast (split_on CHR '':'' ip_str) @ [''0'', ''0''])
            else False)
      else ipv6_parts_ok (split_on CHR '':'' ip_str))"

definition ipv6_address_ok :: "string \<Rightarrow> bool" where
  "ipv6_address_ok addr_str =
     (if CHR ''/'' \<in> set addr_str then False
      else (case split_first CHR ''%'' addr_str of
              (addr, Some scope_id) \<Rightarrow>
                if scope_id = [] \<or> CHR ''%'' \<in> set scope_id then False
                else ipv6_string_ok addr
            | (addr, None) \<Rightarrow> ipv6_string_ok addr))"

text \<open>
  \<open>_check_bracketed_host\<close>: \<open>v\<close>, hexadecimal digits, a dot and one character or more; or
  what \<open>ipaddress.ip_address\<close> reads as an IPv6 address, and not as an IPv4 address.
\<close>

definition check_bracketed_host :: "string \<Rightarrow> bool" where
  "check_bracketed_host hostname =
     (if take 1 hostname = ''v''
      then takeWhile (\<lambda>c. c \<in> set ''0123456789ABCDEFabcdef'') (drop 1 hostname) \<noteq> []
           \<and> (case dropWhile (\<lambda>c. c \<in> set ''0123456789ABCDEFabcdef'') (drop 1 hostname) of
                 [] \<Rightarrow> False
               | d # rest \<Rightarrow> d = CHR ''.'' \<and> rest \<noteq> [])
      else if ipv4_address_ok hostname then False
      else ipv6_address_ok hostname)"

definition urlsplit :: "string \<Rightarrow> string \<Rightarrow> exn + (string \<times> string \<times> string \<times> string \<times> string)" where
  "urlsplit url0 scheme0 =
     (let url1 = filter (\<lambda>c. c \<notin> set [CHR 0x09, CHR 0x0D, CHR 0x0A]) (dropWhile is_c0_or_space url0);
          scheme1 = filter (\<lambda>c. c \<notin> set [CHR 0x09, CHR 0x0D, CHR 0x0A])
                      (strip is_c0_or_space scheme0);
          head = takeWhile (\<lambda>c. c \<noteq> CHR '':'') url1;
          (scheme, url2) =
            (if length head < length url1
                \<and> (case head of [] \<Rightarrow> False | c # _ \<Rightarrow> is_ascii_alpha c)
                \<and> list_all (\<lambda>c. c \<in> set scheme_chars) head
             then (lower head, drop (length head + 1) url1)
             else (scheme1, url1));
          (netloc, url3) =
            (if take 2 url2 = ''//''
             then (takeWhile (\<lambda>c. c \<notin> set ''/?#'') (drop 2 url2),
                   dropWhile (\<lambda>c. c \<notin> set ''/?#'') (drop 2 url2))
             else ([], url2))
      in if (CHR ''['' \<in> set netloc) \<noteq> (CHR '']'' \<in> set netloc)
         then Inl (ValueError ''Invalid IPv6 URL'')
         else if CHR ''['' \<in> set netloc
                 \<and> \<not> check_bracketed_host
                       (takeWhile (\<lambda>c. c \<noteq> CHR '']'')
                          (drop 1 (dropWhile (\<lambda>c. c \<noteq> CHR ''['') netloc)))
         then Inl (ValueError ''invalid bracketed host'')
         else (let (url4, fragment) = split_first CHR ''#'' url3;
                   (path, query) = split_first CHR ''?'' url4
               in Inr (scheme, netloc, path,
                       (case query of None \<Rightarrow> [] | Some q \<Rightarrow> q),
                       (case fragment of None \<Rightarrow> [] | Some f \<Rightarrow> f))))"

text \<open>\<open>_splitparams\<close>: the parameters of the last path segment.\<close>

definition splitparams :: "string \<Rightarrow> string \<times> string" where
  "splitparams url =
     (let last_seg = rev (takeWhile (\<lambda>c. c \<noteq> CHR ''/'') (rev url));
          before = take (length url - length last_seg) url
      in if CHR ''/'' \<in> set url
         then (case split_first CHR '';'' last_seg of
                 (s, None) \<Rightarrow> (url, [])
               | (s, Some p) \<Rightarrow> (before @ s, p))
         else (case split_first CHR '';'' url of
                 (s, None) \<Rightarrow> (url, [])
               | (s, Some p) \<Rightarrow> (s, p)))"

definition urlparse ::
  "string \<Rightarrow> string \<Rightarrow> exn + (string \<times> string \<times> string \<times> string \<times> string \<times> string)" where
  "urlparse url scheme0 =
     (case urlsplit url scheme0 of
        Inl e \<Rightarrow> Inl e
      | Inr (scheme, netloc, path, query, fragment) \<Rightarrow>
          (if scheme \<in> set uses_params \<and> CHR '';'' \<in> set path
           then (case splitparams path of
                   (path', params) \<Rightarrow> Inr (scheme, netloc, path', params, query, fragment))
           else Inr (scheme, netloc, path, [], query, fragment)))"

definition urlunsplit :: "string \<Rightarrow> string \<Rightarrow> string \<Rightarrow> string \<Rightarrow> string \<Rightarrow> string" where
  "urlunsplit scheme netloc path query fragment =
     (let url1 = (if netloc \<noteq> [] \<or> (scheme \<noteq> [] \<and> scheme \<in> set uses_netloc) \<or> take 2 path = ''//''
                  then ''//'' @ netloc @ (if path \<noteq> [] \<and> take 1 path \<noteq> ''/'' then CHR ''/'' # path else path)
                  else path);
          url2 = (if scheme \<noteq> [] then scheme @ CHR '':'' # url1 else url1);
          url3 = (if query \<noteq> [] then url2 @ CHR ''?'' # query else url2)
      in if fragment \<noteq> [] then url3 @ CHR ''#'' # fragment else url3)"

definition urlunparse ::
  "string \<Rightarrow> string \<Rightarrow> string \<Rightarrow> string \<Rightarrow> string \<Rightarrow> string \<Rightarrow> string" where
  "urlunparse scheme netloc path params query fragment =
     urlunsplit scheme netloc (if params \<noteq> [] then path @ CHR '';'' # params else path) query fragment"

text \<open>\<open>segments[1:-1] = filter(None, segments[1:-1])\<close>\<close>

fun filter_inner :: "string list \<Rightarrow> string list" where
  "filter_inner [] = []"
| "filter_inner [x] = [x]"
| "filter_inner (x # y # ys) = x # filter (\<lambda>s. s \<noteq> []) (butlast (y # ys)) @ [last (y # ys)]"

fun resolve_segments :: "string list \<Rightarrow> string list \<Rightarrow> string list" where
  "resolve_segments resolved [] = resolved"
| "resolve_segments resolved (seg # segs) =
     resolve_segments
       (if seg = ''..'' then butlast resolved
        else if seg = ''.'' then resolved
        else resolved @ [seg]) segs"

definition py_urljoin :: "string \<Rightarrow> string \<Rightarrow> exn + string" where
  "py_urljoin base url =
     (if base = [] then Inr url
      else if url = [] then Inr base
      else (case urlparse base [] of
              Inl e \<Rightarrow> Inl e
            | Inr (bscheme, bnetloc, bpath, bparams, bquery, bfragment) \<Rightarrow>
          (case urlparse url bscheme of
              Inl e \<Rightarrow> Inl e
            | Inr (scheme, netloc, path, params, query, fragment) \<Rightarrow>
                if scheme \<noteq> bscheme \<or> scheme \<notin> set uses_relative then Inr url
                else if scheme \<in> set uses_netloc \<and> netloc \<noteq> []
                then Inr (urlunparse scheme netloc path params query fragment)
                else (let netloc' = (if scheme \<in> set uses_netloc then bnetloc else netloc)
                      in if path = [] \<and> params = []
                         then Inr (urlunparse scheme netloc' bpath bparams
                                     (if query = [] then bquery else query) fragment)
                         else (let base_parts = (let parts = split_on CHR ''/'' bpath
                                                 in if last parts \<noteq> [] then butlast parts else parts);
                                   segments = (if take 1 path = ''/'' then split_on CHR ''/'' path
                                               else filter_inner (base_parts @ split_on CHR ''/'' path));
                                   resolved_path = resolve_segments [] segments
                                     @ (if last segments \<in> {''.'', ''..''} then [[]] else []);
                                   joined = join_on CHR ''/'' resolved_path
                               in Inr (urlunparse scheme netloc'
                                         (if joined = [] then ''/'' else joined)
                                         params query fragment))))))"

section \<open>The Oracle wrappers\<close>

text \<open>
  \<open>extract_info env u\<close> is the outcome of \<open>with YoutubeDL(ydl_opts) as ydl:
  ydl.extract_info(u, download=False)\<close>: the value says whether \<open>info is not None\<close>.
  \<open>subprocess_run env argv timeout\<close> gives the return code and the captured stderr.
\<close>

text \<open>
  The body of the inner \<open>try\<close>, the same in the three wrappers: \<open>from yt_dlp import
  YoutubeDL\<close>, then the call.
\<close>

definition yt_dlp_extract_info :: "env \<Rightarrow> string \<Rightarrow> exn + bool" where
  "yt_dlp_extract_info env u =
     (case import_yt_dlp env of
        Inl e \<Rightarrow> Inl e
      | Inr _ \<Rightarrow> extract_info env u)"

text \<open>extract_video_urls.py, lines 48 to 84. The result is a truth value.\<close>

definition evu_is_downloadable_with_ytdlp :: "env \<Rightarrow> string \<Rightarrow> exn + bool" where
  "evu_is_downloadable_with_ytdlp env u =
     (case (case yt_dlp_extract_info env u of
              Inr info \<Rightarrow> Inr info
            | Inl (ImportError m) \<Rightarrow>
                (case subprocess_run env [''sys.executable'', ''-m'', ''yt_dlp'', ''--simulate'', u] 60 of
                   Inl e \<Rightarrow> Inl e
                 | Inr (returncode, stderr) \<Rightarrow> Inr (returncode = 0))
            | Inl e \<Rightarrow> Inl e) of
        Inr r \<Rightarrow> Inr r
      | Inl (TimeoutExpired m) \<Rightarrow> Inr False
      | Inl e \<Rightarrow> Inr False)"

text \<open>
  extract_embedded_videos.py, lines 54 to 102. The result is the triple
  \<open>(url, is_downloadable, error_message)\<close>. An exception raised inside the
  \<open>except ImportError\<close> handler is not seen by the handlers beside it: it reaches the
  outer \<open>try\<close>.
\<close>

definition eev_is_downloadable_with_ytdlp ::
  "env \<Rightarrow> string \<Rightarrow> exn + (string \<times> bool \<times> string option)" where
  "eev_is_downloadable_with_ytdlp env u =
     (case (case yt_dlp_extract_info env u of
              Inr info \<Rightarrow> Inr (u, True, None)
            | Inl (ImportError m) \<Rightarrow>
                (case subprocess_run env [''python'', ''-m'', ''yt_dlp'', ''--simulate'', ''--quiet'', u] 30 of
                   Inr (returncode, stderr) \<Rightarrow>
                     (if returncode = 0 then Inr (u, True, None) else Inr (u, False, Some stderr))
                 | Inl se \<Rightarrow>
                     (if is_SubprocessError se
                      then Inr (u, False, Some (''Subprocess error: '' @ str_exn se))
                      else Inl se))
            | Inl e \<Rightarrow> Inr (u, False, Some (str_exn e))) of
        Inr r \<Rightarrow> Inr r
      | Inl e \<Rightarrow> Inr (u, False, Some (str_exn e)))"

text \<open>test_yt_dlp_urls.py, lines 37 to 70: no subprocess fallback.\<close>

definition tyu_is_downloadable_with_ytdlp ::
  "env \<Rightarrow> string \<Rightarrow> exn + (string \<times> bool \<times> string option)" where
  "tyu_is_downloadable_with_ytdlp env u =
     (case (case yt_dlp_extract_info env u of
              Inr info \<Rightarrow> Inr (u, True, None)
            | Inl (ImportError m) \<Rightarrow> Inr (u, False, Some (''Import error: '' @ m))
            | Inl e \<Rightarrow> Inr (u, False, Some (str_exn e))) of
        Inr r \<Rightarrow> Inr r
      | Inl e \<Rightarrow> Inr (u, False, Some (str_exn e)))"

section \<open>Candidate extraction\<close>

text \<open>Running a loop body that may raise over a list: the first exception ends the loop.\<close>

fun collect :: "('a \<Rightarrow> exn + 'b list) \<Rightarrow> 'a list \<Rightarrow> exn + 'b list" where
  "collect f [] = Inr []"
| "collect f (x # xs) =
     (case f x of
        Inl e \<Rightarrow> Inl e
      | Inr ys \<Rightarrow> (case collect f xs of Inl e \<Rightarrow> Inl e | Inr zs \<Rightarrow> Inr (ys @ zs)))"

text \<open>\<open>if tag.get('src'): potential_urls.append(urljoin(base, tag['src']))\<close>\<close>

fun join_attr :: "env \<Rightarrow> string \<Rightarrow> string option \<Rightarrow> exn + string list" where
  "join_attr env base None = Inr []"
| "join_attr env base (Some s) =
     (if s = [] then Inr []
      else (case urljoin env base s of Inl e \<Rightarrow> Inl e | Inr u \<Rightarrow> Inr [u]))"

text \<open>
  The \<open>video\<close> tags: the tag's own \<open>src\<close>, then the \<open>src\<close> of each nested \<open>source\<close> tag
  (lines 104 to 109 of extract_video_urls.py, 129 to 141 of extract_embedded_videos.py).
\<close>

definition video_tag_urls :: "env \<Rightarrow> string \<Rightarrow> video_tag \<Rightarrow> exn + string list" where
  "video_tag_urls env base v =
     (case join_attr env base (video_src v) of
        Inl e \<Rightarrow> Inl e
      | Inr a \<Rightarrow>
          (case collect (join_attr env base) (video_sources v) of
             Inl e \<Rightarrow> Inl e
           | Inr b \<Rightarrow> Inr (a @ b)))"

definition media_tag_urls :: "env \<Rightarrow> string \<Rightarrow> soup \<Rightarrow> exn + string list" where
  "media_tag_urls env base page = collect (video_tag_urls env base) (videos page)"

subsection \<open>extract_video_urls.py\<close>

text \<open>\<open>if iframe.get('src'): potential_urls.append(iframe['src'])\<close>: the attribute as it is.\<close>

fun evu_iframe_urls :: "string option \<Rightarrow> string list" where
  "evu_iframe_urls None = []"
| "evu_iframe_urls (Some s) = (if s = [] then [] else [s])"

definition evu_json_keys :: "string list" where
  "evu_json_keys = [''url'', ''src'', ''source'', ''videoUrl'', ''video_url'', ''media'', ''mediaUrl'']"

text \<open>
  \<open>extract_urls_from_json\<close> (lines 148 to 164). The list \<open>urls\<close> is the accumulator the
  source appends to. A dictionary is the list of its items in iteration order.
\<close>

fun extract_urls_from_json :: "json \<Rightarrow> string list \<Rightarrow> string list"
  and extract_urls_from_items :: "(string \<times> json) list \<Rightarrow> string list \<Rightarrow> string list"
  and extract_urls_from_list :: "json list \<Rightarrow> string list \<Rightarrow> string list" where
  "extract_urls_from_json (JObject items) urls = extract_urls_from_items items urls"
| "extract_urls_from_json (JArray xs) urls = extract_urls_from_list xs urls"
| "extract_urls_from_json JNull urls = urls"
| "extract_urls_from_json (JBool b) urls = urls"
| "extract_urls_from_json (JNumber n) urls = urls"
| "extract_urls_from_json (JString s) urls = urls"
| "extract_urls_from_items [] urls = urls"
| "extract_urls_from_items ((key, JString v) # items) urls =
     extract_urls_from_items items
       (if key \<in> set evu_json_keys
        then (if startswith v ''http'' then urls @ [v] else urls)
        else extract_urls_from_json (JString v) urls)"
| "extract_urls_from_items ((key, v) # items) urls =
     extract_urls_from_items items (extract_urls_from_json v urls)"
| "extract_urls_from_list [] urls = urls"
| "extract_urls_from_list (x # xs) urls =
     extract_urls_from_list xs (extract_urls_from_json x urls)"

text \<open>
  A \<open>script\<close> tag of type \<open>application/json\<close>: \<open>json.loads(script.string)\<close>, then the
  walk; whatever is raised (a \<open>TypeError\<close> when \<open>script.string\<close> is \<open>None\<close>, a decoding
  error) is swallowed by the bare \<open>except\<close>.
\<close>

definition evu_script_urls :: "env \<Rightarrow> script_tag \<Rightarrow> string list" where
  "evu_script_urls env s =
     (case script_string s of
        None \<Rightarrow> []
      | Some body \<Rightarrow>
          (case json_loads env body of
             Inl e \<Rightarrow> []
           | Inr json_content \<Rightarrow> extract_urls_from_json json_content []))"

definition evu_video_extensions :: "string list" where
  "evu_video_extensions = [''mp4'', ''mov'', ''avi'', ''wmv'', ''flv'', ''webm'', ''m3u8'', ''mpd'']"

text \<open>
  \<open>dotted_suffix exts v\<close>: \<open>v\<close> is a non-empty text, a dot and one of the extensions,
  compared as written.
\<close>

definition dotted_suffix :: "string list \<Rightarrow> string \<Rightarrow> bool" where
  "dotted_suffix exts v =
     list_ex (\<lambda>e. length e + 1 < length v \<and> endswith v (CHR ''.'' # e)) exts"

text \<open>
  A match of \<open>https?://[^\s"']+\.(mp4|mov|avi|wmv|flv|webm|m3u8|mpd)[\s"']\<close> at the head
  of \<open>s\<close>, as \<open>group(0)\<close>. The class \<open>[^\s"']+\<close> runs up to the next blank or quote, and
  that character has to come right after the extension, so the whole run ends in the
  extension.
\<close>

definition evu_match_video_url :: "string \<Rightarrow> string option" where
  "evu_match_video_url s =
     (case (if startswith s ''https://'' then Some ''https://''
            else if startswith s ''http://'' then Some ''http://'' else None) of
        None \<Rightarrow> None
      | Some scheme \<Rightarrow>
          (let rest = drop (length scheme) s;
               run = takeWhile (\<lambda>c. \<not> is_space c \<and> \<not> is_quote c) rest
           in (case dropWhile (\<lambda>c. \<not> is_space c \<and> \<not> is_quote c) rest of
                 [] \<Rightarrow> None
               | d # _ \<Rightarrow>
                   (if dotted_suffix evu_video_extensions run
                    then Some (scheme @ run @ [d]) else None))))"

text \<open>
  \<open>re.finditer\<close>: the matches from left to right, none overlapping another. The number
  counts the characters still covered by the last match.
\<close>

fun evu_finditer :: "nat \<Rightarrow> string \<Rightarrow> string list" where
  "evu_finditer k [] = []"
| "evu_finditer (Suc k) (c # cs) = evu_finditer k cs"
| "evu_finditer 0 (c # cs) =
     (case evu_match_video_url (c # cs) of
        None \<Rightarrow> evu_finditer 0 cs
      | Some g \<Rightarrow> g # evu_finditer (length g - 1) cs)"

text \<open>\<open>url = match.group(0).strip('\'"')\<close>\<close>

definition evu_pattern_urls :: "string \<Rightarrow> string list" where
  "evu_pattern_urls page = map (strip is_quote) (evu_finditer 0 page)"

text \<open>
  The anchors, \<open>soup.find_all('a', href=True)\<close>: only the link text is lowered.
\<close>

definition evu_anchor_urls :: "env \<Rightarrow> string \<Rightarrow> a_tag \<Rightarrow> exn + string list" where
  "evu_anchor_urls env base a =
     (case a_href a of
        None \<Rightarrow> Inr []
      | Some href \<Rightarrow>
          (let txt = lower (a_text a)
           in if contains href ''download'' \<or> contains txt ''download'' \<or> contains txt ''video''
              then (case urljoin env base href of Inl e \<Rightarrow> Inl e | Inr u \<Rightarrow> Inr [u])
              else Inr []))"

text \<open>\<open>response.raise_for_status()\<close>\<close>

definition raise_for_status :: "response \<Rightarrow> exn + unit" where
  "raise_for_status r =
     (if 400 \<le> status_code r \<and> status_code r < 600 then Inl (HTTPError ''HTTP error'') else Inr ())"

text \<open>
  The body of the \<open>try\<close> of \<open>extract_video_url_from_webpage\<close> after the request:
  \<open>potential_urls\<close> before the duplicates go, the five passes in the order of the source.
  Only the passes over the \<open>video\<close> tags and the anchors call \<open>urljoin\<close> and can raise. The
  base of every \<open>urljoin\<close> is \<open>page_url\<close>, the address that was asked for.
\<close>

definition evu_potential_urls :: "env \<Rightarrow> string \<Rightarrow> response \<Rightarrow> exn + string list" where
  "evu_potential_urls env page_url r =
     (let soup = BeautifulSoup env (resp_text r)
      in case media_tag_urls env page_url soup of
           Inl e \<Rightarrow> Inl e
         | Inr from_video \<Rightarrow>
             (case collect (evu_anchor_urls env page_url) (anchors soup) of
                Inl e \<Rightarrow> Inl e
              | Inr from_anchors \<Rightarrow>
                  Inr (from_video
                       @ concat (map evu_iframe_urls (iframes soup))
                       @ concat (map (evu_script_urls env)
                                   (filter (\<lambda>s. script_type s = Some ''application/json'') (scripts soup)))
                       @ evu_pattern_urls (resp_text r)
                       @ from_anchors)))"

text \<open>\<open>extract_video_url_from_webpage\<close> (lines 86 to 146): any exception gives \<open>[]\<close>.\<close>

definition extract_video_url_from_webpage :: "env \<Rightarrow> string \<Rightarrow> string list" where
  "extract_video_url_from_webpage env page_url =
     (case (case requests_get env page_url of
              Inl e \<Rightarrow> Inl e
            | Inr r \<Rightarrow>
                (case raise_for_status r of
                   Inl e \<Rightarrow> Inl e
                 | Inr _ \<Rightarrow>
                     (case evu_potential_urls env page_url r of
                        Inl e \<Rightarrow> Inl e
                      | Inr potential_urls \<Rightarrow> Inr (list_set (set_slot env) potential_urls)))) of
        Inr found \<Rightarrow> found
      | Inl e \<Rightarrow> [])"

subsection \<open>extract_embedded_videos.py\<close>

definition eev_json_keys :: "string list" where
  "eev_json_keys = [''url'', ''src'', ''source'', ''file'', ''videoUrl'', ''videoSrc'']"

definition eev_json_extensions :: "string list" where
  "eev_json_extensions = [''mp4'', ''webm'', ''m3u8'', ''mpd'']"

definition VIDEO_EXTENSIONS :: "string list" where
  "VIDEO_EXTENSIONS = [''mp4'', ''webm'', ''mov'', ''avi'', ''wmv'', ''flv'', ''m3u8'', ''mpd'', ''ts'']"

text \<open>
  \<open>match_extension exts v\<close>: \<open>v\<close> is a non-empty text, a dot and one of the extensions,
  letter case ignored; the result is the extension as \<open>v\<close> writes it (group 5 of
  \<open>json_pattern\<close>).
\<close>

fun match_extension :: "string list \<Rightarrow> string \<Rightarrow> string option" where
  "match_extension [] v = None"
| "match_extension (e # es) v =
     (if length e + 1 < length v \<and> lower (drop (length v - (length e + 1)) v) = CHR ''.'' # lower e
      then Some (drop (length v - length e) v)
      else match_extension es v)"

text \<open>
  A match of \<open>json_pattern\<close> (line 156) at the head of \<open>s\<close>, under \<open>re.IGNORECASE\<close>:
  a quote, a key, a quote, blanks, a colon, blanks, a quote, the value, a quote. The
  result is group 4 (the value, extension included), group 5 (the extension) and the
  length of the match.
\<close>

definition eev_match_json_pattern :: "string \<Rightarrow> (string \<times> string \<times> nat) option" where
  "eev_match_json_pattern s =
     (case s of
        [] \<Rightarrow> None
      | q1 # s1 \<Rightarrow>
          if \<not> is_quote q1 then None
          else if lower (takeWhile (\<lambda>c. \<not> is_quote c) s1) \<notin> set (map lower eev_json_keys) then None
          else (case dropWhile (\<lambda>c. \<not> is_quote c) s1 of
                  [] \<Rightarrow> None
                | q2 # s2 \<Rightarrow>
                    (case dropWhile is_space s2 of
                       [] \<Rightarrow> None
                     | colon # s3 \<Rightarrow>
                         if colon \<noteq> CHR '':'' then None
                         else (case dropWhile is_space s3 of
                                 [] \<Rightarrow> None
                               | q3 # s4 \<Rightarrow>
                                   if \<not> is_quote q3 then None
                                   else (case dropWhile (\<lambda>c. \<not> is_quote c) s4 of
                                           [] \<Rightarrow> None
                                         | q4 # s5 \<Rightarrow>
                                             (case match_extension eev_json_extensions
                                                     (takeWhile (\<lambda>c. \<not> is_quote c) s4) of
                                                None \<Rightarrow> None
                                              | Some ext \<Rightarrow>
                                                  Some (takeWhile (\<lambda>c. \<not> is_quote c) s4, ext,
                                                        length s - length s5)))))))"

text \<open>\<open>re.findall(json_pattern, script.string, re.IGNORECASE)\<close>, groups 4 and 5 of each match.\<close>

fun eev_findall_json :: "nat \<Rightarrow> string \<Rightarrow> (string \<times> string) list" where
  "eev_findall_json k [] = []"
| "eev_findall_json (Suc k) (c # cs) = eev_findall_json k cs"
| "eev_findall_json 0 (c # cs) =
     (case eev_match_json_pattern (c # cs) of
        None \<Rightarrow> eev_findall_json 0 cs
      | Some (value, ext, n) \<Rightarrow> (value, ext) # eev_findall_json (n - 1) cs)"

text \<open>
  \<open>if not video_url.startswith(('http://', 'https://')): video_url = urljoin(base_url, video_url)\<close>
\<close>

definition eev_absolute :: "env \<Rightarrow> string \<Rightarrow> string \<Rightarrow> exn + string list" where
  "eev_absolute env base_url video_url =
     (if \<not> (startswith video_url ''http://'' \<or> startswith video_url ''https://'')
      then (case urljoin env base_url video_url of Inl e \<Rightarrow> Inl e | Inr u \<Rightarrow> Inr [u])
      else Inr [video_url])"

text \<open>
  The scripts (lines 157 to 165): \<open>video_url = match[3] + match[4]\<close>, group 4 followed by
  group 5.
\<close>

definition eev_script_urls :: "env \<Rightarrow> string \<Rightarrow> script_tag \<Rightarrow> exn + string list" where
  "eev_script_urls env base_url s =
     (case script_string s of
        None \<Rightarrow> Inr []
      | Some body \<Rightarrow>
          (if body = [] then Inr []
           else collect (\<lambda>(value, ext). eev_absolute env base_url (value @ ext))
                  (eev_findall_json 0 body)))"

text \<open>
  \<open>dotted_extension ext v\<close>: somewhere in \<open>v\<close> stands a dot and \<open>ext\<close> (letter case
  ignored), at the end of \<open>v\<close> or before a question mark.
\<close>

fun dotted_extension :: "string \<Rightarrow> string \<Rightarrow> bool" where
  "dotted_extension ext [] = False"
| "dotted_extension ext (c # cs) =
     (if c = CHR ''.''
      then (if lower (take (length ext) cs) = lower ext
               \<and> (case drop (length ext) cs of [] \<Rightarrow> True | d # _ \<Rightarrow> d = CHR ''?'')
            then True
            else dotted_extension ext cs)
      else dotted_extension ext cs)"

text \<open>
  A match of \<open>["']([^"']*\.ext(\?[^"']*)?)["']\<close> (line 170) at the head of \<open>s\<close>, under
  \<open>re.IGNORECASE\<close>: group 1 and the length of the match.
\<close>

definition eev_match_direct_link :: "string \<Rightarrow> string \<Rightarrow> (string \<times> nat) option" where
  "eev_match_direct_link ext s =
     (case s of
        [] \<Rightarrow> None
      | q1 # s1 \<Rightarrow>
          if \<not> is_quote q1 then None
          else (case dropWhile (\<lambda>c. \<not> is_quote c) s1 of
                  [] \<Rightarrow> None
                | q2 # s2 \<Rightarrow>
                    if dotted_extension ext (takeWhile (\<lambda>c. \<not> is_quote c) s1)
                    then Some (takeWhile (\<lambda>c. \<not> is_quote c) s1, length s - length s2)
                    else None))"

fun eev_findall_direct_link :: "string \<Rightarrow> nat \<Rightarrow> string \<Rightarrow> string list" where
  "eev_findall_direct_link ext k [] = []"
| "eev_findall_direct_link ext (Suc k) (c # cs) = eev_findall_direct_link ext k cs"
| "eev_findall_direct_link ext 0 (c # cs) =
     (case eev_match_direct_link ext (c # cs) of
        None \<Rightarrow> eev_findall_direct_link ext 0 cs
      | Some (g, n) \<Rightarrow> g # eev_findall_direct_link ext (n - 1) cs)"

text \<open>The direct links (lines 169 to 177): one scan of the page for each extension.\<close>

definition eev_direct_link_urls :: "env \<Rightarrow> string \<Rightarrow> string \<Rightarrow> exn + string list" where
  "eev_direct_link_urls env base_url page =
     collect (\<lambda>extension.
                collect (eev_absolute env base_url) (eev_findall_direct_link extension 0 page))
       VIDEO_EXTENSIONS"

definition download_keywords :: "string list" where
  "download_keywords = [''download'', ''media'', ''video'']"

text \<open>
  The anchors (lines 182 to 192): one test on the \<open>href\<close>, one on the link text; the second
  joins \<open>a.get('href', '')\<close>, the empty string when the anchor has no \<open>href\<close>.
\<close>

definition eev_anchor_urls :: "env \<Rightarrow> string \<Rightarrow> a_tag \<Rightarrow> exn + string list" where
  "eev_anchor_urls env base_url a =
     (case (if truthy (a_href a)
               \<and> list_ex (\<lambda>keyword. contains (lower (case a_href a of None \<Rightarrow> [] | Some h \<Rightarrow> h)) keyword)
                    download_keywords
            then (case urljoin env base_url (case a_href a of None \<Rightarrow> [] | Some h \<Rightarrow> h) of
                    Inl e \<Rightarrow> Inl e
                  | Inr u \<Rightarrow> Inr [u])
            else Inr []) of
        Inl e \<Rightarrow> Inl e
      | Inr by_href \<Rightarrow>
          (if a_text a \<noteq> [] \<and> list_ex (\<lambda>keyword. contains (lower (a_text a)) keyword) download_keywords
           then (case urljoin env base_url (case a_href a of None \<Rightarrow> [] | Some h \<Rightarrow> h) of
                   Inl e \<Rightarrow> Inl e
                 | Inr u \<Rightarrow> Inr (by_href @ [u]))
           else Inr by_href))"

text \<open>
  The body of the \<open>try\<close> of \<open>extract_video_urls_from_page\<close> after the request. The base is
  \<open>response.url\<close>, the address the request ended at.
\<close>

definition eev_potential_urls :: "env \<Rightarrow> response \<Rightarrow> exn + string list" where
  "eev_potential_urls env r =
     (let soup = BeautifulSoup env (resp_text r);
          base_url = resp_url r
      in case media_tag_urls env base_url soup of
           Inl e \<Rightarrow> Inl e
         | Inr from_video \<Rightarrow>
        (case collect (join_attr env base_url) (iframes soup) of
           Inl e \<Rightarrow> Inl e
         | Inr from_iframes \<Rightarrow>
        (case collect (eev_script_urls env base_url) (scripts soup) of
           Inl e \<Rightarrow> Inl e
         | Inr from_scripts \<Rightarrow>
        (case eev_direct_link_urls env base_url (resp_text r) of
           Inl e \<Rightarrow> Inl e
         | Inr from_links \<Rightarrow>
        (case collect (eev_anchor_urls env base_url) (anchors soup) of
           Inl e \<Rightarrow> Inl e
         | Inr from_anchors \<Rightarrow>
             Inr (from_video @ from_iframes @ from_scripts @ from_links @ from_anchors))))))"

text \<open>\<open>extract_video_urls_from_page\<close> (lines 104 to 199): any exception gives \<open>[]\<close>.\<close>

definition extract_video_urls_from_page :: "env \<Rightarrow> string \<Rightarrow> string list" where
  "extract_video_urls_from_page env page_url =
     (case (case requests_get env page_url of
              Inl e \<Rightarrow> Inl e
            | Inr r \<Rightarrow>
                (case raise_for_status r of
                   Inl e \<Rightarrow> Inl e
                 | Inr _ \<Rightarrow>
                     (case eev_potential_urls env r of
                        Inl e \<Rightarrow> Inl e
                      | Inr potential_urls \<Rightarrow> Inr (list_set (set_slot env) potential_urls)))) of
        Inr found \<Rightarrow> found
      | Inl e \<Rightarrow> [])"

section \<open>Resolution of one address\<close>

text \<open>
  What a resolution does to the outside, in order: a call of the Oracle with its answer,
  a request for the page.
\<close>

datatype event = Probe string bool | Fetch string

subsection \<open>extract_video_urls.py: \<open>process_url\<close> (lines 166 to 184)\<close>

text \<open>
  The loop over \<open>potential_video_urls\<close>: it returns at the first address the Oracle takes,
  and \<open>None\<close> when the list runs out.
\<close>

fun evu_probe_each :: "env \<Rightarrow> string list \<Rightarrow> (exn + string option) \<times> event list" where
  "evu_probe_each env [] = (Inr None, [])"
| "evu_probe_each env (video_url # rest) =
     (case evu_is_downloadable_with_ytdlp env video_url of
        Inl e \<Rightarrow> (Inl e, [])
      | Inr ok \<Rightarrow>
          if ok then (Inr (Some video_url), [Probe video_url True])
          else (case evu_probe_each env rest of
                  (result, trace) \<Rightarrow> (result, Probe video_url False # trace)))"

definition evu_process_url :: "env \<Rightarrow> string \<Rightarrow> (exn + string option) \<times> event list" where
  "evu_process_url env u =
     (case evu_is_downloadable_with_ytdlp env u of
        Inl e \<Rightarrow> (Inl e, [])
      | Inr ok \<Rightarrow>
          if ok then (Inr (Some u), [Probe u True])
          else (case evu_probe_each env (extract_video_url_from_webpage env u) of
                  (result, trace) \<Rightarrow> (result, Probe u False # Fetch u # trace)))"

subsection \<open>extract_embedded_videos.py: \<open>process_url\<close> (lines 201 to 240)\<close>

record results =
  original_url :: string
  direct_downloadable :: bool
  embedded_videos_found :: "string list"
  downloadable_videos :: "string list"
  errors :: "string list"

text \<open>The loop over \<open>embedded_videos\<close>: every address is tested, the accepted ones are kept.\<close>

fun eev_probe_each :: "env \<Rightarrow> string list \<Rightarrow> results \<Rightarrow> (exn + results) \<times> event list" where
  "eev_probe_each env [] res = (Inr res, [])"
| "eev_probe_each env (video_url # rest) res =
     (case eev_is_downloadable_with_ytdlp env video_url of
        Inl e \<Rightarrow> (Inl e, [])
      | Inr (embedded_url, ok, embedded_error) \<Rightarrow>
          (case eev_probe_each env rest
                  (if ok then res\<lparr>downloadable_videos := downloadable_videos res @ [embedded_url]\<rparr>
                   else if truthy embedded_error
                   then res\<lparr>errors := errors res
                          @ [''Embedded URL error ('' @ embedded_url @ ''): ''
                             @ (case embedded_error of None \<Rightarrow> [] | Some m \<Rightarrow> m)]\<rparr>
                   else res) of
             (result, trace) \<Rightarrow> (result, Probe video_url ok # trace)))"

definition eev_process_url :: "env \<Rightarrow> string \<Rightarrow> (exn + results) \<times> event list" where
  "eev_process_url env u =
     (let res = \<lparr>original_url = u, direct_downloadable = False, embedded_videos_found = [],
                 downloadable_videos = [], errors = []\<rparr>
      in case eev_is_downloadable_with_ytdlp env u of
           Inl e \<Rightarrow> (Inl e, [])
         | Inr (direct_url, ok, direct_error) \<Rightarrow>
             if ok
             then (Inr (res\<lparr>direct_downloadable := True,
                             downloadable_videos := downloadable_videos res @ [direct_url]\<rparr>),
                   [Probe u True])
             else (let res1 = (if truthy direct_error
                               then res\<lparr>errors := errors res
                                      @ [''Direct URL error: ''
                                         @ (case direct_error of None \<Rightarrow> [] | Some m \<Rightarrow> m)]\<rparr>
                               else res);
                       embedded_videos = extract_video_urls_from_page env u
                   in case eev_probe_each env embedded_videos
                             (res1\<lparr>embedded_videos_found := embedded_videos\<rparr>) of
                        (result, trace) \<Rightarrow> (result, Probe u False # Fetch u # trace)))"

section \<open>Reading the outcomes\<close>

fun is_ImportError :: "exn \<Rightarrow> bool" where
  "is_ImportError (ImportError m) = True"
| "is_ImportError e = False"

text \<open>The subprocess came back with return code 0.\<close>

fun exits_zero :: "exn + (int \<times> string) \<Rightarrow> bool" where
  "exits_zero (Inr (returncode, stderr)) = (returncode = 0)"
| "exits_zero (Inl e) = False"

text \<open>The Oracle's answer as each \<open>process_url\<close> reads it.\<close>

definition evu_accepts :: "env \<Rightarrow> string \<Rightarrow> bool" where
  "evu_accepts env v = (evu_is_downloadable_with_ytdlp env v = Inr True)"

definition eev_accepts :: "env \<Rightarrow> string \<Rightarrow> bool" where
  "eev_accepts env v =
     (case eev_is_downloadable_with_ytdlp env v of
        Inr (embedded_url, ok, embedded_error) \<Rightarrow> ok
      | Inl e \<Rightarrow> False)"

text \<open>The entry that a rejected candidate leaves in \<open>errors\<close>: none when the message is empty.\<close>

definition eev_error_entry :: "env \<Rightarrow> string \<Rightarrow> string list" where
  "eev_error_entry env v =
     (case eev_is_downloadable_with_ytdlp env v of
        Inr (embedded_url, ok, embedded_error) \<Rightarrow>
          (if \<not> ok \<and> truthy embedded_error
           then [''Embedded URL error ('' @ embedded_url @ ''): ''
                 @ (case embedded_error of None \<Rightarrow> [] | Some m \<Rightarrow> m)]
           else [])
      | Inl e \<Rightarrow> [])"

text \<open>The entry that the failed direct probe leaves in \<open>errors\<close>.\<close>

definition eev_direct_error_entry :: "env \<Rightarrow> string \<Rightarrow> string list" where
  "eev_direct_error_entry env u =
     (case eev_is_downloadable_with_ytdlp env u of
        Inr (direct_url, ok, direct_error) \<Rightarrow>
          (if \<not> ok \<and> truthy direct_error
           then [''Direct URL error: '' @ (case direct_error of None \<Rightarrow> [] | Some m \<Rightarrow> m)]
           else [])
      | Inl e \<Rightarrow> [])"

text \<open>
  The probes of candidates in a trace, \<open>candidates_tried\<close> in the words of the
  specification: what follows the request for the page.
\<close>

fun candidates_tried :: "event list \<Rightarrow> event list" where
  "candidates_tried [] = []"
| "candidates_tried (Fetch u # trace) = trace"
| "candidates_tried (Probe u ok # trace) = candidates_tried trace"

text \<open>The request for the page raises, or the answer has a status from 400 to 599.\<close>

definition fetch_fails :: "env \<Rightarrow> string \<Rightarrow> bool" where
  "fetch_fails env u =
     (case requests_get env u of
        Inl e \<Rightarrow> True
      | Inr r \<Rightarrow> 400 \<le> status_code r \<and> status_code r < 600)"



section \<open>Concrete environments\<close>

text \<open>
  A page with a native player and an embedded one:
  \<open><video src="https://a.org/v.mp4"></video><iframe src="https://b.org/e"></iframe>\<close>
\<close>

definition two_html :: string where
  "two_html = ''<video src='' @ [dquote] @ ''https://a.org/v.mp4'' @ [dquote] @ ''></video>''
              @ ''<iframe src='' @ [dquote] @ ''https://b.org/e'' @ [dquote] @ ''></iframe>''"

definition two_soup :: soup where
  "two_soup = \<lparr>videos = [\<lparr>video_src = Some ''https://a.org/v.mp4'', video_sources = []\<rparr>],
                iframes = [Some ''https://b.org/e''], scripts = [], anchors = []\<rparr>"

text \<open>A page with a relative source: \<open><video src="/clip.mp4"></video>\<close>\<close>

definition clip_html :: string where
  "clip_html = ''<video src='' @ [dquote] @ ''/clip.mp4'' @ [dquote] @ ''></video>''"

definition clip_soup :: soup where
  "clip_soup = \<lparr>videos = [\<lparr>video_src = Some ''/clip.mp4'', video_sources = []\<rparr>],
                 iframes = [], scripts = [], anchors = []\<rparr>"

definition html_parser :: "string \<Rightarrow> soup" where
  "html_parser page =
     (if page = two_html then two_soup
      else if page = clip_html then clip_soup
      else \<lparr>videos = [], iframes = [], scripts = [], anchors = []\<rparr>)"

text \<open>
  Nothing works: yt-dlp is installed and knows no address, the subprocess cannot start,
  the network is down.
\<close>

definition env_down :: env where
  "env_down =
     \<lparr>import_yt_dlp = Inr (),
      extract_info = (\<lambda>u. Inl (OtherException ''Unsupported URL'')),
      subprocess_run = (\<lambda>argv timeout. Inl (OtherException ''No such file or directory'')),
      requests_get = (\<lambda>u. Inl (OtherException ''Connection refused'')),
      BeautifulSoup = html_parser,
      json_loads = (\<lambda>body. Inl (ValueError ''Expecting value'')),
      urljoin = py_urljoin,
      set_slot = slot_by_length\<rparr>"

text \<open>The server answers with an empty page.\<close>

definition env_empty_page :: env where
  "env_empty_page =
     env_down\<lparr>requests_get := (\<lambda>u. Inr \<lparr>status_code = 200, resp_text = [], resp_url = u\<rparr>)\<rparr>"

text \<open>The server answers with the page of two players; the Oracle takes neither.\<close>

definition env_two :: env where
  "env_two =
     env_down\<lparr>requests_get := (\<lambda>u. Inr \<lparr>status_code = 200, resp_text = two_html, resp_url = u\<rparr>)\<rparr>"

text \<open>The Oracle takes the native source only; it takes both players.\<close>

definition env_two_media :: env where
  "env_two_media =
     env_two\<lparr>extract_info :=
       (\<lambda>u. if u = ''https://a.org/v.mp4'' then Inr True
             else Inl (OtherException ''Unsupported URL''))\<rparr>"

definition env_two_both :: env where
  "env_two_both =
     env_two\<lparr>extract_info :=
       (\<lambda>u. if u \<in> set [''https://a.org/v.mp4'', ''https://b.org/e''] then Inr True
             else Inl (OtherException ''Unsupported URL''))\<rparr>"

text \<open>The Oracle takes every address.\<close>

definition env_direct :: env where
  "env_direct = env_down\<lparr>extract_info := (\<lambda>u. Inr True)\<rparr>"

text \<open>Every request is redirected to \<open>https://site.org/events/1\<close>, the page with the relative source.\<close>

definition env_redirect :: env where
  "env_redirect =
     env_down\<lparr>requests_get :=
       (\<lambda>u. Inr \<lparr>status_code = 200, resp_text = clip_html, resp_url = ''https://site.org/events/1''\<rparr>)\<rparr>"

text \<open>yt-dlp cannot be imported, and the subprocess that stands in for it exits with 0.\<close>

definition env_no_module :: env where
  "env_no_module =
     env_down\<lparr>import_yt_dlp := Inl (ImportError ''No module named yt_dlp''),
              subprocess_run := (\<lambda>argv timeout. Inr (0, []))\<rparr>"

section \<open>The Oracle wrappers never raise\<close>

lemma evu_is_downloadable_cases:
  "evu_is_downloadable_with_ytdlp env u = Inr True
   \<or> evu_is_downloadable_with_ytdlp env u = Inr False"
  by (auto simp: evu_is_downloadable_with_ytdlp_def split: sum.splits exn.splits prod.splits)

lemma eev_is_downloadable_returns:
  "\<exists>ok err. eev_is_downloadable_with_ytdlp env u = Inr (u, ok, err)"
  by (auto simp: eev_is_downloadable_with_ytdlp_def split: sum.splits exn.splits prod.splits)

lemma tyu_is_downloadable_returns:
  "\<exists>ok err. tyu_is_downloadable_with_ytdlp env u = Inr (u, ok, err)"
  by (auto simp: tyu_is_downloadable_with_ytdlp_def split: sum.splits exn.splits prod.splits)

lemma evu_raise_verdict:
  "yt_dlp_extract_info env u = Inl e \<Longrightarrow>
   evu_is_downloadable_with_ytdlp env u
     = Inr (is_ImportError e
            \<and> exits_zero (subprocess_run env [''sys.executable'', ''-m'', ''yt_dlp'', ''--simulate'', u] 60))"
  by (cases e; cases "subprocess_run env [''sys.executable'', ''-m'', ''yt_dlp'', ''--simulate'', u] 60")
     (auto simp: evu_is_downloadable_with_ytdlp_def split: sum.splits exn.splits prod.splits)

lemma eev_raise_verdict:
  "yt_dlp_extract_info env u = Inl e \<Longrightarrow>
   \<exists>err. eev_is_downloadable_with_ytdlp env u
     = Inr (u, is_ImportError e
            \<and> exits_zero (subprocess_run env [''python'', ''-m'', ''yt_dlp'', ''--simulate'', ''--quiet'', u] 30), err)"
  by (cases e; cases "subprocess_run env [''python'', ''-m'', ''yt_dlp'', ''--simulate'', ''--quiet'', u] 30")
     (auto simp: eev_is_downloadable_with_ytdlp_def split: sum.splits exn.splits prod.splits)

lemma tyu_raise_verdict:
  "yt_dlp_extract_info env u = Inl e \<Longrightarrow>
   \<exists>m. tyu_is_downloadable_with_ytdlp env u = Inr (u, False, Some m)"
  by (cases e) (auto simp: tyu_is_downloadable_with_ytdlp_def)

text \<open>
  Claim C10, as the code has it. Each of the three \<open>is_downloadable_with_ytdlp\<close> returns
  for every address and every environment: no exception leaves it. When the yt-dlp call
  raises, the wrapper of test_yt_dlp_urls.py answers not downloadable, with a message.
  The wrappers of extract_video_urls.py and extract_embedded_videos.py answer not
  downloadable unless the exception is an import failure: then they run yt-dlp as a
  subprocess, and the answer is downloadable exactly when the subprocess returns with
  code 0 (a timeout or any other exception of the subprocess gives not downloadable).
\<close>

theorem is_downloadable_with_ytdlp_returns:
  "(\<exists>ok. evu_is_downloadable_with_ytdlp env u = Inr ok)
   \<and> (\<exists>ok err. eev_is_downloadable_with_ytdlp env u = Inr (u, ok, err))
   \<and> (\<exists>ok err. tyu_is_downloadable_with_ytdlp env u = Inr (u, ok, err))
   \<and> (\<forall>e. yt_dlp_extract_info env u = Inl e \<longrightarrow>
          evu_is_downloadable_with_ytdlp env u
            = Inr (is_ImportError e
                   \<and> exits_zero (subprocess_run env
                        [''sys.executable'', ''-m'', ''yt_dlp'', ''--simulate'', u] 60))
        \<and> (\<exists>err. eev_is_downloadable_with_ytdlp env u
            = Inr (u, is_ImportError e
                   \<and> exits_zero (subprocess_run env
                        [''python'', ''-m'', ''yt_dlp'', ''--simulate'', ''--quiet'', u] 30), err))
        \<and> (\<exists>m. tyu_is_downloadable_with_ytdlp env u = Inr (u, False, Some m)))"
  using evu_is_downloadable_cases [of env u] eev_is_downloadable_returns [of env u]
    tyu_is_downloadable_returns [of env u] evu_raise_verdict [of env u]
    eev_raise_verdict [of env u] tyu_raise_verdict [of env u]
  by blast

text \<open>The theorem where yt-dlp is installed and rejects the address.\<close>

theorem is_downloadable_with_ytdlp_returns_witness:
  "yt_dlp_extract_info env_down ''https://example.org/meeting''
     = Inl (OtherException ''Unsupported URL'')
   \<and> evu_is_downloadable_with_ytdlp env_down ''https://example.org/meeting'' = Inr False
   \<and> (\<exists>err. eev_is_downloadable_with_ytdlp env_down ''https://example.org/meeting''
         = Inr (''https://example.org/meeting'', False, err))
   \<and> (\<exists>m. tyu_is_downloadable_with_ytdlp env_down ''https://example.org/meeting''
         = Inr (''https://example.org/meeting'', False, Some m))"
proof -
  have h: "yt_dlp_extract_info env_down ''https://example.org/meeting''
             = Inl (OtherException ''Unsupported URL'')"
    by (simp add: yt_dlp_extract_info_def env_down_def)
  from is_downloadable_with_ytdlp_returns [of env_down "''https://example.org/meeting''"] h
  show ?thesis
    by simp
qed

text \<open>
  Against C10 as stated: the import of yt-dlp fails, an exception inside the wrapper, and
  the subprocess returns with code 0; the wrappers of extract_video_urls.py and
  extract_embedded_videos.py answer downloadable.
\<close>

theorem import_failure_downloadable_counterexample:
  "yt_dlp_extract_info env_no_module ''https://example.org/meeting''
     = Inl (ImportError ''No module named yt_dlp'')
   \<and> evu_is_downloadable_with_ytdlp env_no_module ''https://example.org/meeting'' = Inr True
   \<and> eev_is_downloadable_with_ytdlp env_no_module ''https://example.org/meeting''
       = Inr (''https://example.org/meeting'', True, None)"
  by (simp add: yt_dlp_extract_info_def evu_is_downloadable_with_ytdlp_def
        eev_is_downloadable_with_ytdlp_def env_no_module_def env_down_def)

section \<open>Removing duplicates\<close>

lemma distinct_list_set: "distinct (list_set slot xs)"
  by (simp add: list_set_def)

lemma set_list_set: "set (list_set slot xs) = set xs"
  by (simp add: list_set_def)

lemma distinct_extract_video_url_from_webpage:
  "distinct (extract_video_url_from_webpage env u)"
  by (simp add: extract_video_url_from_webpage_def distinct_list_set split: sum.splits)

lemma distinct_extract_video_urls_from_page:
  "distinct (extract_video_urls_from_page env u)"
  by (simp add: extract_video_urls_from_page_def distinct_list_set split: sum.splits)

text \<open>
  Claim C1, as the code has it. \<open>list(set(potential_urls))\<close> holds every address of the raw
  sequence exactly once: no two entries of the output are the same string, and the output
  has the addresses of the input and no other. So have the lists the two extractors
  return. The order is the order in which the set is iterated, not the order of first
  appearance.
\<close>

theorem list_set_distinct_same_elements:
  "distinct (list_set slot xs) \<and> set (list_set slot xs) = set xs
   \<and> length (list_set slot xs) = card (set xs)
   \<and> distinct (extract_video_url_from_webpage env u)
   \<and> distinct (extract_video_urls_from_page env u)"
  by (simp add: distinct_extract_video_url_from_webpage distinct_extract_video_urls_from_page)
     (simp add: list_set_def length_remdups_card_conv)

text \<open>
  Against C1 as stated: the iframe address is found after the video address and stands
  before it in the output; the Deduplicator of the specification keeps the order.
\<close>

theorem list_set_order_counterexample:
  "list_set slot_by_length [''https://a.org/v.mp4'', ''https://b.org/e'']
     = [''https://b.org/e'', ''https://a.org/v.mp4'']
   \<and> spec_deduplicate [''https://a.org/v.mp4'', ''https://b.org/e'']
     = [''https://a.org/v.mp4'', ''https://b.org/e'']"
  by (simp add: list_set_def slot_by_length_def spec_deduplicate_def)

text \<open>
  Claim C9, as the code has it. \<open>list(set(...))\<close> applied to its own output removes nothing:
  the second output has the same addresses, each once, and the same length. The order
  may change.
\<close>

theorem list_set_twice_same_elements:
  "mset (list_set slot' (list_set slot xs)) = mset (list_set slot xs)
   \<and> length (list_set slot' (list_set slot xs)) = length (list_set slot xs)"
proof -
  have "mset (list_set slot' (list_set slot xs)) = mset (list_set slot xs)"
    by (simp add: list_set_def [of slot' "list_set slot xs"] distinct_remdups_id distinct_list_set)
  then show ?thesis
    by (metis size_mset)
qed

text \<open>
  Against C9 as stated: two addresses that collide in the table change places when the
  output is deduplicated again.
\<close>

theorem list_set_twice_counterexample:
  "list_set slot_colliding [''https://a.org/v9.mp4'', ''https://a.org/v24.mp4'']
     = [''https://a.org/v24.mp4'', ''https://a.org/v9.mp4'']
   \<and> list_set slot_colliding
         (list_set slot_colliding [''https://a.org/v9.mp4'', ''https://a.org/v24.mp4''])
     = [''https://a.org/v9.mp4'', ''https://a.org/v24.mp4'']"
  by (simp add: list_set_def slot_colliding_def)

section \<open>Resolution of one address: the probes and the result\<close>

lemma evu_probe_each_rejected:
  "\<forall>c\<in>set cs. evu_is_downloadable_with_ytdlp env c = Inr False \<Longrightarrow>
   evu_probe_each env cs = (Inr None, map (\<lambda>c. Probe c False) cs)"
  by (induction cs) auto

lemma evu_probe_each_first:
  "\<forall>p\<in>set pre. evu_is_downloadable_with_ytdlp env p = Inr False \<Longrightarrow>
   evu_is_downloadable_with_ytdlp env c = Inr True \<Longrightarrow>
   evu_probe_each env (pre @ c # post)
     = (Inr (Some c), map (\<lambda>p. Probe p False) pre @ [Probe c True])"
  by (induction pre) auto

lemma eev_accepts_iff:
  "eev_accepts env v \<longleftrightarrow> (\<exists>err. eev_is_downloadable_with_ytdlp env v = Inr (v, True, err))"
  using eev_is_downloadable_returns [of env v] by (auto simp: eev_accepts_def)

lemma eev_probe_each_all:
  "eev_probe_each env vs res
     = (Inr (res\<lparr>downloadable_videos := downloadable_videos res @ filter (eev_accepts env) vs,
                 errors := errors res @ concat (map (eev_error_entry env) vs)\<rparr>),
        map (\<lambda>v. Probe v (eev_accepts env v)) vs)"
proof (induction vs arbitrary: res)
  case Nil
  show ?case by simp
next
  case (Cons v vs)
  obtain ok err where r: "eev_is_downloadable_with_ytdlp env v = Inr (v, ok, err)"
    using eev_is_downloadable_returns [of env v] by blast
  show ?case
    by (cases ok) (simp_all add: r Cons.IH eev_accepts_def eev_error_entry_def)
qed

lemma evu_process_url_direct:
  "evu_is_downloadable_with_ytdlp env u = Inr True \<Longrightarrow>
   evu_process_url env u = (Inr (Some u), [Probe u True])"
  by (simp add: evu_process_url_def)

lemma evu_process_url_indirect:
  "evu_is_downloadable_with_ytdlp env u = Inr False \<Longrightarrow>
   evu_process_url env u
     = (fst (evu_probe_each env (extract_video_url_from_webpage env u)),
        Probe u False # Fetch u # snd (evu_probe_each env (extract_video_url_from_webpage env u)))"
  by (simp add: evu_process_url_def split: prod.splits)

lemma eev_process_url_direct:
  "eev_accepts env u \<Longrightarrow>
   eev_process_url env u
     = (Inr \<lparr>original_url = u, direct_downloadable = True, embedded_videos_found = [],
              downloadable_videos = [u], errors = []\<rparr>, [Probe u True])"
  using eev_is_downloadable_returns [of env u]
  by (auto simp: eev_process_url_def eev_accepts_def)

lemma eev_process_url_indirect:
  "\<not> eev_accepts env u \<Longrightarrow>
   eev_process_url env u
     = (Inr \<lparr>original_url = u, direct_downloadable = False,
              embedded_videos_found = extract_video_urls_from_page env u,
              downloadable_videos = filter (eev_accepts env) (extract_video_urls_from_page env u),
              errors = eev_direct_error_entry env u
                @ concat (map (eev_error_entry env) (extract_video_urls_from_page env u))\<rparr>,
        Probe u False # Fetch u
          # map (\<lambda>v. Probe v (eev_accepts env v)) (extract_video_urls_from_page env u))"
  using eev_is_downloadable_returns [of env u]
  by (auto simp: eev_process_url_def eev_accepts_def eev_probe_each_all eev_direct_error_entry_def
        Let_def)

lemma fetch_fails_evu: "fetch_fails env u \<Longrightarrow> extract_video_url_from_webpage env u = []"
  by (auto simp: fetch_fails_def extract_video_url_from_webpage_def raise_for_status_def
        split: sum.splits)

lemma fetch_fails_eev: "fetch_fails env u \<Longrightarrow> extract_video_urls_from_page env u = []"
  by (auto simp: fetch_fails_def extract_video_urls_from_page_def raise_for_status_def
        split: sum.splits)

text \<open>
  Claim C4. When the direct probe accepts the address, \<open>process_url\<close> of
  extract_video_urls.py returns the address itself, and \<open>process_url\<close> of
  extract_embedded_videos.py returns the record with \<open>direct_downloadable\<close> set and the
  address as the only downloadable video. The one thing done is the direct probe: the page
  is not requested and no candidate is probed.
\<close>

theorem direct_probe_short_circuits:
  "(evu_is_downloadable_with_ytdlp env u = Inr True \<longrightarrow>
      evu_process_url env u = (Inr (Some u), [Probe u True])
      \<and> candidates_tried (snd (evu_process_url env u)) = [])
   \<and> (eev_accepts env u \<longrightarrow>
      eev_process_url env u
        = (Inr \<lparr>original_url = u, direct_downloadable = True, embedded_videos_found = [],
                 downloadable_videos = [u], errors = []\<rparr>, [Probe u True])
      \<and> candidates_tried (snd (eev_process_url env u)) = [])"
  by (simp add: evu_process_url_direct eev_process_url_direct)

text \<open>
  Claim C5, as the code has it. When the direct probe rejects the address and the request
  for the page raises or is answered with a status from 400 to 599, both \<open>process_url\<close>
  return without raising: \<open>None\<close> in extract_video_urls.py, and in
  extract_embedded_videos.py the record with no embedded video, no downloadable video and,
  in \<open>errors\<close>, the entry of the direct probe alone. The error of the request is in
  neither result.
\<close>

theorem fetch_failure_leaves_empty_result:
  "fetch_fails env u \<longrightarrow>
     (evu_is_downloadable_with_ytdlp env u = Inr False \<longrightarrow>
        evu_process_url env u = (Inr None, [Probe u False, Fetch u]))
     \<and> (\<not> eev_accepts env u \<longrightarrow>
        eev_process_url env u
          = (Inr \<lparr>original_url = u, direct_downloadable = False, embedded_videos_found = [],
                   downloadable_videos = [], errors = eev_direct_error_entry env u\<rparr>,
             [Probe u False, Fetch u]))"
  by (simp add: evu_process_url_indirect eev_process_url_indirect fetch_fails_evu fetch_fails_eev)

text \<open>
  Claim C6, as the code has it. When the direct probe rejects the address, the page yields
  candidates and the Oracle rejects every one of them, each candidate is probed once, in
  list order, each probe with the answer not downloadable, as many probes as there are
  distinct candidates; \<open>process_url\<close> of extract_video_urls.py returns \<open>None\<close>, and that of
  extract_embedded_videos.py a record with the candidates in \<open>embedded_videos_found\<close> and
  no downloadable video. Neither result holds a reason.
\<close>

theorem all_candidates_rejected:
  "(evu_is_downloadable_with_ytdlp env u = Inr False
      \<and> extract_video_url_from_webpage env u \<noteq> []
      \<and> (\<forall>c\<in>set (extract_video_url_from_webpage env u).
            evu_is_downloadable_with_ytdlp env c = Inr False) \<longrightarrow>
      fst (evu_process_url env u) = Inr None
      \<and> candidates_tried (snd (evu_process_url env u))
          = map (\<lambda>c. Probe c False) (extract_video_url_from_webpage env u)
      \<and> length (candidates_tried (snd (evu_process_url env u)))
          = card (set (extract_video_url_from_webpage env u)))
   \<and> (\<not> eev_accepts env u
      \<and> extract_video_urls_from_page env u \<noteq> []
      \<and> (\<forall>c\<in>set (extract_video_urls_from_page env u). \<not> eev_accepts env c) \<longrightarrow>
      (\<exists>res. fst (eev_process_url env u) = Inr res \<and> \<not> direct_downloadable res
             \<and> downloadable_videos res = []
             \<and> embedded_videos_found res = extract_video_urls_from_page env u)
      \<and> candidates_tried (snd (eev_process_url env u))
          = map (\<lambda>c. Probe c False) (extract_video_urls_from_page env u)
      \<and> length (candidates_tried (snd (eev_process_url env u)))
          = card (set (extract_video_urls_from_page env u)))"
proof (intro conjI impI)
  assume a: "evu_is_downloadable_with_ytdlp env u = Inr False
      \<and> extract_video_url_from_webpage env u \<noteq> []
      \<and> (\<forall>c\<in>set (extract_video_url_from_webpage env u).
            evu_is_downloadable_with_ytdlp env c = Inr False)"
  then have p: "evu_process_url env u
      = (Inr None, Probe u False # Fetch u
           # map (\<lambda>c. Probe c False) (extract_video_url_from_webpage env u))"
    by (simp add: evu_process_url_indirect evu_probe_each_rejected)
  show "fst (evu_process_url env u) = Inr None" by (simp add: p)
  show "candidates_tried (snd (evu_process_url env u))
          = map (\<lambda>c. Probe c False) (extract_video_url_from_webpage env u)"
    by (simp add: p)
  show "length (candidates_tried (snd (evu_process_url env u)))
          = card (set (extract_video_url_from_webpage env u))"
    by (simp add: p distinct_card distinct_extract_video_url_from_webpage)
next
  assume a: "\<not> eev_accepts env u
      \<and> extract_video_urls_from_page env u \<noteq> []
      \<and> (\<forall>c\<in>set (extract_video_urls_from_page env u). \<not> eev_accepts env c)"
  then have f: "filter (eev_accepts env) (extract_video_urls_from_page env u) = []"
    and m: "map (\<lambda>v. Probe v (eev_accepts env v)) (extract_video_urls_from_page env u)
          = map (\<lambda>c. Probe c False) (extract_video_urls_from_page env u)"
    by (auto simp: filter_empty_conv)
  show "\<exists>res. fst (eev_process_url env u) = Inr res \<and> \<not> direct_downloadable res
             \<and> downloadable_videos res = []
             \<and> embedded_videos_found res = extract_video_urls_from_page env u"
    using a by (simp add: eev_process_url_indirect f)
  show "candidates_tried (snd (eev_process_url env u))
          = map (\<lambda>c. Probe c False) (extract_video_urls_from_page env u)"
    using a by (simp add: eev_process_url_indirect m)
  show "length (candidates_tried (snd (eev_process_url env u)))
          = card (set (extract_video_urls_from_page env u))"
    using a by (simp add: eev_process_url_indirect m distinct_card distinct_extract_video_urls_from_page)
qed

text \<open>
  Claim C3, as the code has it. In extract_video_urls.py the candidates are probed in list
  order, and the first one the Oracle accepts is returned: the probes are those of the
  rejected candidates before it and its own, none after. In extract_embedded_videos.py
  every candidate is probed, in list order, also after one has been accepted, and
  \<open>downloadable_videos\<close> lists all the accepted ones in that order.
\<close>

theorem probes_in_list_order:
  "(evu_is_downloadable_with_ytdlp env u = Inr False
      \<and> extract_video_url_from_webpage env u = pre @ c # post
      \<and> (\<forall>p\<in>set pre. evu_is_downloadable_with_ytdlp env p = Inr False)
      \<and> evu_is_downloadable_with_ytdlp env c = Inr True \<longrightarrow>
      evu_process_url env u
        = (Inr (Some c), Probe u False # Fetch u # map (\<lambda>p. Probe p False) pre @ [Probe c True]))
   \<and> (\<not> eev_accepts env u \<longrightarrow>
      candidates_tried (snd (eev_process_url env u))
        = map (\<lambda>v. Probe v (eev_accepts env v)) (extract_video_urls_from_page env u)
      \<and> (\<exists>res. fst (eev_process_url env u) = Inr res
             \<and> downloadable_videos res
                 = filter (eev_accepts env) (extract_video_urls_from_page env u)))"
  by (simp add: evu_process_url_indirect evu_probe_each_first eev_process_url_indirect)

lemma collect_member:
  "collect f xs = Inr ys \<Longrightarrow> x \<in> set xs \<Longrightarrow> \<exists>zs. f x = Inr zs \<and> set zs \<subseteq> set ys"
proof (induction xs arbitrary: ys)
  case Nil
  then show ?case by simp
next
  case (Cons a xs)
  from Cons.prems(1) obtain as bs where s: "f a = Inr as" "collect f xs = Inr bs" "ys = as @ bs"
    by (auto split: sum.splits)
  show ?case
  proof (cases "x = a")
    case True
    with s show ?thesis by auto
  next
    case False
    with Cons.prems(2) have "x \<in> set xs" by simp
    from Cons.IH [OF s(2) this] s(3) show ?thesis by auto
  qed
qed

lemma media_src_found:
  assumes "media_tag_urls env base page = Inr media" and "v \<in> set (videos page)"
    and "video_src v = Some s" and "s \<noteq> []" and "urljoin env base s = Inr c"
  shows "c \<in> set media"
proof -
  from collect_member [OF assms(1) [unfolded media_tag_urls_def] assms(2)]
  obtain zs where z: "video_tag_urls env base v = Inr zs" "set zs \<subseteq> set media"
    by blast
  from z(1) assms(3,4,5) have "c \<in> set zs"
    by (auto simp: video_tag_urls_def split: sum.splits)
  with z(2) show ?thesis by blast
qed

lemma evu_potential_media:
  "evu_potential_urls env u r = Inr raw \<Longrightarrow>
   \<exists>media. media_tag_urls env u (BeautifulSoup env (resp_text r)) = Inr media
            \<and> set media \<subseteq> set raw"
  by (auto simp: evu_potential_urls_def Let_def split: sum.splits)

lemma eev_potential_media:
  "eev_potential_urls env r = Inr raw \<Longrightarrow>
   \<exists>media. media_tag_urls env (resp_url r) (BeautifulSoup env (resp_text r)) = Inr media
            \<and> set media \<subseteq> set raw"
  by (auto simp: eev_potential_urls_def Let_def split: sum.splits)

lemma evu_extract_fetched:
  "requests_get env u = Inr r \<Longrightarrow> \<not> fetch_fails env u \<Longrightarrow>
   evu_potential_urls env u r = Inr raw \<Longrightarrow>
   extract_video_url_from_webpage env u = list_set (set_slot env) raw"
  by (auto simp: extract_video_url_from_webpage_def fetch_fails_def raise_for_status_def)

lemma eev_extract_fetched:
  "requests_get env u = Inr r \<Longrightarrow> \<not> fetch_fails env u \<Longrightarrow>
   eev_potential_urls env r = Inr raw \<Longrightarrow>
   extract_video_urls_from_page env u = list_set (set_slot env) raw"
  by (auto simp: extract_video_urls_from_page_def fetch_fails_def raise_for_status_def)

lemma evu_probe_each_accepted:
  assumes "c \<in> set cs" and "evu_accepts env c"
  shows "\<exists>w. fst (evu_probe_each env cs) = Inr (Some w) \<and> evu_accepts env w \<and> w \<in> set cs"
proof -
  from assms have "\<exists>x\<in>set cs. evu_accepts env x" by blast
  then obtain pre w post where s: "cs = pre @ w # post" "evu_accepts env w"
    "\<forall>p\<in>set pre. \<not> evu_accepts env p"
    by (auto simp: split_list_first_prop_iff)
  have "\<forall>p\<in>set pre. evu_is_downloadable_with_ytdlp env p = Inr False"
    using s(3) evu_is_downloadable_cases [of env] by (auto simp: evu_accepts_def)
  with s(1,2) have "evu_probe_each env cs
      = (Inr (Some w), map (\<lambda>p. Probe p False) pre @ [Probe w True])"
    by (simp add: evu_probe_each_first evu_accepts_def)
  with s show ?thesis by simp
qed

text \<open>
  Claim C2, as the code has it. Let the direct probe reject the address, the page be
  fetched, and a \<open>video\<close> tag of the page have a source that the Oracle accepts once
  resolved. Then \<open>process_url\<close> of extract_video_urls.py returns a candidate of the page
  that the Oracle accepts; it is the native source when the Oracle accepts no other
  candidate. \<open>process_url\<close> of extract_embedded_videos.py lists the native source in
  \<open>downloadable_videos\<close>, with every other candidate the Oracle accepts. Which of several
  accepted candidates comes first is decided by the order of the set, not by the strategy
  that found it.
\<close>

theorem accepted_media_source_resolves:
  "(evu_is_downloadable_with_ytdlp env u = Inr False
      \<and> requests_get env u = Inr r \<and> \<not> fetch_fails env u
      \<and> evu_potential_urls env u r = Inr raw
      \<and> v \<in> set (videos (BeautifulSoup env (resp_text r)))
      \<and> video_src v = Some s \<and> s \<noteq> [] \<and> urljoin env u s = Inr c
      \<and> evu_accepts env c \<longrightarrow>
      (\<exists>w. fst (evu_process_url env u) = Inr (Some w) \<and> evu_accepts env w \<and> w \<in> set raw
           \<and> ((\<forall>x\<in>set raw. evu_accepts env x \<longrightarrow> x = c) \<longrightarrow> w = c)))
   \<and> (\<not> eev_accepts env u
      \<and> requests_get env u = Inr r \<and> \<not> fetch_fails env u
      \<and> eev_potential_urls env r = Inr raw'
      \<and> v \<in> set (videos (BeautifulSoup env (resp_text r)))
      \<and> video_src v = Some s \<and> s \<noteq> [] \<and> urljoin env (resp_url r) s = Inr c'
      \<and> eev_accepts env c' \<longrightarrow>
      (\<exists>res. fst (eev_process_url env u) = Inr res
           \<and> c' \<in> set (downloadable_videos res)
           \<and> set (downloadable_videos res) = {x \<in> set raw'. eev_accepts env x}))"
proof (intro conjI impI)
  assume a: "evu_is_downloadable_with_ytdlp env u = Inr False
      \<and> requests_get env u = Inr r \<and> \<not> fetch_fails env u
      \<and> evu_potential_urls env u r = Inr raw
      \<and> v \<in> set (videos (BeautifulSoup env (resp_text r)))
      \<and> video_src v = Some s \<and> s \<noteq> [] \<and> urljoin env u s = Inr c
      \<and> evu_accepts env c"
  then obtain media where m: "media_tag_urls env u (BeautifulSoup env (resp_text r)) = Inr media"
    "set media \<subseteq> set raw"
    using evu_potential_media by blast
  from a m have "c \<in> set raw"
    using media_src_found [of env u "BeautifulSoup env (resp_text r)" media v s c] by blast
  moreover from a have e: "extract_video_url_from_webpage env u = list_set (set_slot env) raw"
    by (simp add: evu_extract_fetched)
  ultimately have "c \<in> set (extract_video_url_from_webpage env u)"
    by (simp add: set_list_set)
  with a obtain w where w: "fst (evu_probe_each env (extract_video_url_from_webpage env u)) = Inr (Some w)"
    "evu_accepts env w" "w \<in> set (extract_video_url_from_webpage env u)"
    using evu_probe_each_accepted by blast
  from a w(1) have "fst (evu_process_url env u) = Inr (Some w)"
    by (simp add: evu_process_url_indirect)
  moreover from w(3) e have "w \<in> set raw" by (simp add: set_list_set)
  ultimately show "\<exists>w. fst (evu_process_url env u) = Inr (Some w) \<and> evu_accepts env w \<and> w \<in> set raw
           \<and> ((\<forall>x\<in>set raw. evu_accepts env x \<longrightarrow> x = c) \<longrightarrow> w = c)"
    using w(2) by blast
next
  assume a: "\<not> eev_accepts env u
      \<and> requests_get env u = Inr r \<and> \<not> fetch_fails env u
      \<and> eev_potential_urls env r = Inr raw'
      \<and> v \<in> set (videos (BeautifulSoup env (resp_text r)))
      \<and> video_src v = Some s \<and> s \<noteq> [] \<and> urljoin env (resp_url r) s = Inr c'
      \<and> eev_accepts env c'"
  then obtain media where m: "media_tag_urls env (resp_url r) (BeautifulSoup env (resp_text r)) = Inr media"
    "set media \<subseteq> set raw'"
    using eev_potential_media by blast
  from a m have "c' \<in> set raw'"
    using media_src_found [of env "resp_url r" "BeautifulSoup env (resp_text r)" media v s c'] by blast
  moreover from a have e: "extract_video_urls_from_page env u = list_set (set_slot env) raw'"
    by (simp add: eev_extract_fetched)
  ultimately show "\<exists>res. fst (eev_process_url env u) = Inr res
           \<and> c' \<in> set (downloadable_videos res)
           \<and> set (downloadable_videos res) = {x \<in> set raw'. eev_accepts env x}"
    using a by (auto simp: eev_process_url_indirect set_list_set)
qed

lemma two_evu:
  "extract_video_url_from_webpage (env_two\<lparr>extract_info := f\<rparr>) ''https://example.org/meeting''
     = [''https://b.org/e'', ''https://a.org/v.mp4'']"
  by code_simp

lemma two_eev:
  "extract_video_urls_from_page (env_two\<lparr>extract_info := f\<rparr>) ''https://example.org/meeting''
     = [''https://b.org/e'', ''https://a.org/v.mp4'']"
  by code_simp

lemma two_evu0:
  "extract_video_url_from_webpage env_two ''https://example.org/meeting''
     = [''https://b.org/e'', ''https://a.org/v.mp4'']"
proof -
  have "env_two\<lparr>extract_info := extract_info env_two\<rparr> = env_two" by simp
  with two_evu [of "extract_info env_two"] show ?thesis by metis
qed

lemma two_eev0:
  "extract_video_urls_from_page env_two ''https://example.org/meeting''
     = [''https://b.org/e'', ''https://a.org/v.mp4'']"
proof -
  have "env_two\<lparr>extract_info := extract_info env_two\<rparr> = env_two" by simp
  with two_eev [of "extract_info env_two"] show ?thesis by metis
qed

lemma two_evu_raw:
  "evu_potential_urls (env_two\<lparr>extract_info := f\<rparr>) ''https://example.org/meeting''
      \<lparr>status_code = 200, resp_text = two_html, resp_url = ''https://example.org/meeting''\<rparr>
     = Inr [''https://a.org/v.mp4'', ''https://b.org/e'', ''https://a.org/v.mp4'']"
  by code_simp

lemma two_eev_raw:
  "eev_potential_urls (env_two\<lparr>extract_info := f\<rparr>)
      \<lparr>status_code = 200, resp_text = two_html, resp_url = ''https://example.org/meeting''\<rparr>
     = Inr [''https://a.org/v.mp4'', ''https://b.org/e'', ''https://a.org/v.mp4'']"
  by code_simp

lemma urljoin_absolute:
  "py_urljoin ''https://example.org/meeting'' ''https://a.org/v.mp4'' = Inr ''https://a.org/v.mp4''"
  by code_simp

lemmas oracle_defs = evu_is_downloadable_with_ytdlp_def eev_is_downloadable_with_ytdlp_def
  yt_dlp_extract_info_def evu_accepts_def eev_accepts_def

lemmas env_defs = env_down_def env_empty_page_def env_two_def env_two_media_def env_two_both_def
  env_direct_def env_redirect_def env_no_module_def

text \<open>The theorem where the Oracle takes every address.\<close>

theorem direct_probe_short_circuits_witness:
  "evu_is_downloadable_with_ytdlp env_direct ''https://example.org/meeting'' = Inr True
   \<and> eev_accepts env_direct ''https://example.org/meeting''
   \<and> evu_process_url env_direct ''https://example.org/meeting''
       = (Inr (Some ''https://example.org/meeting''), [Probe ''https://example.org/meeting'' True])
   \<and> eev_process_url env_direct ''https://example.org/meeting''
       = (Inr \<lparr>original_url = ''https://example.org/meeting'', direct_downloadable = True,
                embedded_videos_found = [], downloadable_videos = [''https://example.org/meeting''],
                errors = []\<rparr>,
          [Probe ''https://example.org/meeting'' True])"
proof -
  have h: "evu_is_downloadable_with_ytdlp env_direct ''https://example.org/meeting'' = Inr True"
    "eev_accepts env_direct ''https://example.org/meeting''"
    by (simp_all add: oracle_defs env_defs)
  with direct_probe_short_circuits [of env_direct "''https://example.org/meeting''"] show ?thesis
    by simp
qed

text \<open>The theorem where the network is down.\<close>

theorem fetch_failure_leaves_empty_result_witness:
  "fetch_fails env_down ''https://example.org/meeting''
   \<and> evu_is_downloadable_with_ytdlp env_down ''https://example.org/meeting'' = Inr False
   \<and> \<not> eev_accepts env_down ''https://example.org/meeting''
   \<and> evu_process_url env_down ''https://example.org/meeting''
       = (Inr None, [Probe ''https://example.org/meeting'' False, Fetch ''https://example.org/meeting''])
   \<and> eev_process_url env_down ''https://example.org/meeting''
       = (Inr \<lparr>original_url = ''https://example.org/meeting'', direct_downloadable = False,
                embedded_videos_found = [], downloadable_videos = [],
                errors = [''Direct URL error: Unsupported URL'']\<rparr>,
          [Probe ''https://example.org/meeting'' False, Fetch ''https://example.org/meeting''])"
proof -
  have h: "fetch_fails env_down ''https://example.org/meeting''"
    "evu_is_downloadable_with_ytdlp env_down ''https://example.org/meeting'' = Inr False"
    "\<not> eev_accepts env_down ''https://example.org/meeting''"
    by (simp_all add: oracle_defs env_defs fetch_fails_def)
  have e: "eev_direct_error_entry env_down ''https://example.org/meeting''
             = [''Direct URL error: Unsupported URL'']"
    by (simp add: eev_direct_error_entry_def oracle_defs env_defs)
  from fetch_failure_leaves_empty_result [of env_down "''https://example.org/meeting''"] h e show ?thesis
    by simp
qed

text \<open>
  Against C5 as stated: the request that is refused and the request answered with an empty
  page give the same results and the same traces, in both files; the results do not tell
  a failed fetch from a page without candidates, and do not hold the error.
\<close>

theorem fetch_failure_indistinguishable_counterexample:
  "requests_get env_down ''https://example.org/meeting'' = Inl (OtherException ''Connection refused'')
   \<and> requests_get env_empty_page ''https://example.org/meeting''
       = Inr \<lparr>status_code = 200, resp_text = [], resp_url = ''https://example.org/meeting''\<rparr>
   \<and> evu_process_url env_down ''https://example.org/meeting''
       = evu_process_url env_empty_page ''https://example.org/meeting''
   \<and> eev_process_url env_down ''https://example.org/meeting''
       = eev_process_url env_empty_page ''https://example.org/meeting''"
  by code_simp

text \<open>The theorem on the page of two players, the Oracle taking neither.\<close>

theorem all_candidates_rejected_witness:
  "evu_is_downloadable_with_ytdlp env_two ''https://example.org/meeting'' = Inr False
   \<and> \<not> eev_accepts env_two ''https://example.org/meeting''
   \<and> extract_video_url_from_webpage env_two ''https://example.org/meeting''
       = [''https://b.org/e'', ''https://a.org/v.mp4'']
   \<and> extract_video_urls_from_page env_two ''https://example.org/meeting''
       = [''https://b.org/e'', ''https://a.org/v.mp4'']
   \<and> evu_is_downloadable_with_ytdlp env_two ''https://b.org/e'' = Inr False
   \<and> evu_is_downloadable_with_ytdlp env_two ''https://a.org/v.mp4'' = Inr False
   \<and> \<not> eev_accepts env_two ''https://b.org/e''
   \<and> \<not> eev_accepts env_two ''https://a.org/v.mp4''
   \<and> fst (evu_process_url env_two ''https://example.org/meeting'') = Inr None
   \<and> candidates_tried (snd (evu_process_url env_two ''https://example.org/meeting''))
       = [Probe ''https://b.org/e'' False, Probe ''https://a.org/v.mp4'' False]
   \<and> candidates_tried (snd (eev_process_url env_two ''https://example.org/meeting''))
       = [Probe ''https://b.org/e'' False, Probe ''https://a.org/v.mp4'' False]"
proof -
  have h: "evu_is_downloadable_with_ytdlp env_two ''https://example.org/meeting'' = Inr False"
    "\<not> eev_accepts env_two ''https://example.org/meeting''"
    "evu_is_downloadable_with_ytdlp env_two ''https://b.org/e'' = Inr False"
    "evu_is_downloadable_with_ytdlp env_two ''https://a.org/v.mp4'' = Inr False"
    "\<not> eev_accepts env_two ''https://b.org/e''"
    "\<not> eev_accepts env_two ''https://a.org/v.mp4''"
    by (simp_all add: oracle_defs env_defs)
  from all_candidates_rejected [of env_two "''https://example.org/meeting''"] h two_evu0 two_eev0 show ?thesis
    by simp
qed

text \<open>
  Against C6 as stated: on the page of two players, the Oracle taking neither,
  \<open>process_url\<close> of extract_video_urls.py returns \<open>None\<close>, the value it also returns for the
  page without candidates and for the request that is refused; the record of
  extract_embedded_videos.py holds the message of each probe in \<open>errors\<close>. The reason
  \<open>no candidate passed verification\<close> is in neither result.
\<close>

theorem exhaustion_reason_counterexample:
  "extract_video_url_from_webpage env_two ''https://example.org/meeting''
       = [''https://b.org/e'', ''https://a.org/v.mp4'']
   \<and> evu_is_downloadable_with_ytdlp env_two ''https://b.org/e'' = Inr False
   \<and> evu_is_downloadable_with_ytdlp env_two ''https://a.org/v.mp4'' = Inr False
   \<and> fst (evu_process_url env_two ''https://example.org/meeting'') = Inr None
   \<and> extract_video_url_from_webpage env_empty_page ''https://example.org/meeting'' = []
   \<and> fst (evu_process_url env_empty_page ''https://example.org/meeting'') = Inr None
   \<and> requests_get env_down ''https://example.org/meeting'' = Inl (OtherException ''Connection refused'')
   \<and> fst (evu_process_url env_down ''https://example.org/meeting'') = Inr None
   \<and> fst (eev_process_url env_two ''https://example.org/meeting'')
       = Inr \<lparr>original_url = ''https://example.org/meeting'', direct_downloadable = False,
               embedded_videos_found = [''https://b.org/e'', ''https://a.org/v.mp4''],
               downloadable_videos = [],
               errors = [''Direct URL error: Unsupported URL'',
                         ''Embedded URL error (https://b.org/e): Unsupported URL'',
                         ''Embedded URL error (https://a.org/v.mp4): Unsupported URL'']\<rparr>"
  by code_simp

text \<open>The theorem on the page of two players, the Oracle taking the native source only.\<close>

theorem probes_in_list_order_witness:
  "evu_is_downloadable_with_ytdlp env_two_media ''https://example.org/meeting'' = Inr False
   \<and> \<not> eev_accepts env_two_media ''https://example.org/meeting''
   \<and> extract_video_url_from_webpage env_two_media ''https://example.org/meeting''
       = [''https://b.org/e''] @ ''https://a.org/v.mp4'' # []
   \<and> evu_is_downloadable_with_ytdlp env_two_media ''https://b.org/e'' = Inr False
   \<and> evu_is_downloadable_with_ytdlp env_two_media ''https://a.org/v.mp4'' = Inr True
   \<and> evu_process_url env_two_media ''https://example.org/meeting''
       = (Inr (Some ''https://a.org/v.mp4''),
          [Probe ''https://example.org/meeting'' False, Fetch ''https://example.org/meeting'',
           Probe ''https://b.org/e'' False, Probe ''https://a.org/v.mp4'' True])
   \<and> candidates_tried (snd (eev_process_url env_two_media ''https://example.org/meeting''))
       = [Probe ''https://b.org/e'' False, Probe ''https://a.org/v.mp4'' True]"
proof -
  have h: "evu_is_downloadable_with_ytdlp env_two_media ''https://example.org/meeting'' = Inr False"
    "\<not> eev_accepts env_two_media ''https://example.org/meeting''"
    "evu_is_downloadable_with_ytdlp env_two_media ''https://b.org/e'' = Inr False"
    "evu_is_downloadable_with_ytdlp env_two_media ''https://a.org/v.mp4'' = Inr True"
    "\<not> eev_accepts env_two_media ''https://b.org/e''"
    "eev_accepts env_two_media ''https://a.org/v.mp4''"
    by (simp_all add: oracle_defs env_defs)
  have x: "extract_video_url_from_webpage env_two_media ''https://example.org/meeting''
             = [''https://b.org/e''] @ ''https://a.org/v.mp4'' # []"
    "extract_video_urls_from_page env_two_media ''https://example.org/meeting''
             = [''https://b.org/e'', ''https://a.org/v.mp4'']"
    by (simp_all add: env_two_media_def two_evu two_eev)
  from probes_in_list_order [of env_two_media "''https://example.org/meeting''" "[''https://b.org/e'']"
      "''https://a.org/v.mp4''" "[]"] h x
  show ?thesis
    by simp
qed

text \<open>
  Against C3 as stated: in extract_embedded_videos.py the Oracle accepts the first
  candidate, and the second candidate is probed all the same.
\<close>

theorem embedded_probes_after_success_counterexample:
  "\<not> eev_accepts env_two_both ''https://example.org/meeting''
   \<and> extract_video_urls_from_page env_two_both ''https://example.org/meeting''
       = [''https://b.org/e'', ''https://a.org/v.mp4'']
   \<and> eev_accepts env_two_both ''https://b.org/e''
   \<and> snd (eev_process_url env_two_both ''https://example.org/meeting'')
       = [Probe ''https://example.org/meeting'' False, Fetch ''https://example.org/meeting'',
          Probe ''https://b.org/e'' True, Probe ''https://a.org/v.mp4'' True]"
proof -
  have h: "\<not> eev_accepts env_two_both ''https://example.org/meeting''"
    "eev_accepts env_two_both ''https://b.org/e''"
    "eev_accepts env_two_both ''https://a.org/v.mp4''"
    by (simp_all add: oracle_defs env_defs)
  have x: "extract_video_urls_from_page env_two_both ''https://example.org/meeting''
             = [''https://b.org/e'', ''https://a.org/v.mp4'']"
    by (simp add: env_two_both_def two_eev)
  from h x show ?thesis
    by (simp add: eev_process_url_indirect)
qed

text \<open>
  Against C2 as stated: the Oracle accepts the source of the \<open>video\<close> tag and the source of
  the iframe; the iframe's address stands first in the list, and it is the one returned.
\<close>

theorem iframe_precedes_media_counterexample:
  "evu_is_downloadable_with_ytdlp env_two_both ''https://example.org/meeting'' = Inr False
   \<and> requests_get env_two_both ''https://example.org/meeting''
       = Inr \<lparr>status_code = 200, resp_text = two_html, resp_url = ''https://example.org/meeting''\<rparr>
   \<and> media_tag_urls env_two_both ''https://example.org/meeting'' (BeautifulSoup env_two_both two_html)
       = Inr [''https://a.org/v.mp4'']
   \<and> evu_accepts env_two_both ''https://a.org/v.mp4''
   \<and> fst (evu_process_url env_two_both ''https://example.org/meeting'') = Inr (Some ''https://b.org/e'')"
proof -
  have h: "evu_is_downloadable_with_ytdlp env_two_both ''https://example.org/meeting'' = Inr False"
    "evu_accepts env_two_both ''https://a.org/v.mp4''"
    "evu_is_downloadable_with_ytdlp env_two_both ''https://b.org/e'' = Inr True"
    by (simp_all add: oracle_defs env_defs)
  have r: "requests_get env_two_both ''https://example.org/meeting''
       = Inr \<lparr>status_code = 200, resp_text = two_html, resp_url = ''https://example.org/meeting''\<rparr>"
    by (simp add: env_defs)
  have m: "media_tag_urls env_two_both ''https://example.org/meeting'' (BeautifulSoup env_two_both two_html)
       = Inr [''https://a.org/v.mp4'']"
    by (simp add: env_defs media_tag_urls_def video_tag_urls_def html_parser_def two_soup_def
          urljoin_absolute)
  have x: "extract_video_url_from_webpage env_two_both ''https://example.org/meeting''
             = [''https://b.org/e'', ''https://a.org/v.mp4'']"
    by (simp add: env_two_both_def two_evu)
  from h r m x show ?thesis
    by (simp add: evu_process_url_indirect)
qed

text \<open>The theorem on the page of two players, the Oracle taking the native source only.\<close>

theorem accepted_media_source_resolves_witness:
  "evu_is_downloadable_with_ytdlp env_two_media ''https://example.org/meeting'' = Inr False
   \<and> \<not> eev_accepts env_two_media ''https://example.org/meeting''
   \<and> requests_get env_two_media ''https://example.org/meeting''
       = Inr \<lparr>status_code = 200, resp_text = two_html, resp_url = ''https://example.org/meeting''\<rparr>
   \<and> \<not> fetch_fails env_two_media ''https://example.org/meeting''
   \<and> \<lparr>video_src = Some ''https://a.org/v.mp4'', video_sources = []\<rparr>
       \<in> set (videos (BeautifulSoup env_two_media two_html))
   \<and> urljoin env_two_media ''https://example.org/meeting'' ''https://a.org/v.mp4''
       = Inr ''https://a.org/v.mp4''
   \<and> evu_accepts env_two_media ''https://a.org/v.mp4''
   \<and> eev_accepts env_two_media ''https://a.org/v.mp4''
   \<and> fst (evu_process_url env_two_media ''https://example.org/meeting'')
       = Inr (Some ''https://a.org/v.mp4'')
   \<and> (\<exists>res. fst (eev_process_url env_two_media ''https://example.org/meeting'') = Inr res
          \<and> ''https://a.org/v.mp4'' \<in> set (downloadable_videos res))"
proof -
  let ?r = "\<lparr>status_code = 200, resp_text = two_html, resp_url = ''https://example.org/meeting''\<rparr>"
  let ?v = "\<lparr>video_src = Some ''https://a.org/v.mp4'', video_sources = []\<rparr>"
  let ?raw = "[''https://a.org/v.mp4'', ''https://b.org/e'', ''https://a.org/v.mp4'']"
  have h: "evu_is_downloadable_with_ytdlp env_two_media ''https://example.org/meeting'' = Inr False"
    "\<not> eev_accepts env_two_media ''https://example.org/meeting''"
    "evu_accepts env_two_media ''https://a.org/v.mp4''"
    "eev_accepts env_two_media ''https://a.org/v.mp4''"
    "\<not> evu_accepts env_two_media ''https://b.org/e''"
    by (simp_all add: oracle_defs env_defs)
  have r: "requests_get env_two_media ''https://example.org/meeting'' = Inr ?r"
    "\<not> fetch_fails env_two_media ''https://example.org/meeting''"
    "?v \<in> set (videos (BeautifulSoup env_two_media (resp_text ?r)))"
    "video_src ?v = Some ''https://a.org/v.mp4''"
    "urljoin env_two_media ''https://example.org/meeting'' ''https://a.org/v.mp4''
       = Inr ''https://a.org/v.mp4''"
    "urljoin env_two_media (resp_url ?r) ''https://a.org/v.mp4'' = Inr ''https://a.org/v.mp4''"
    by (simp_all add: env_defs fetch_fails_def html_parser_def two_soup_def urljoin_absolute)
  have p: "evu_potential_urls env_two_media ''https://example.org/meeting'' ?r = Inr ?raw"
    "eev_potential_urls env_two_media ?r = Inr ?raw"
    by (simp_all add: env_two_media_def two_evu_raw two_eev_raw)
  have only: "\<forall>x\<in>set ?raw. evu_accepts env_two_media x \<longrightarrow> x = ''https://a.org/v.mp4''"
    using h(5) by simp
  from accepted_media_source_resolves [of env_two_media "''https://example.org/meeting''" ?r ?raw ?v "''https://a.org/v.mp4''"
      "''https://a.org/v.mp4''" ?raw "''https://a.org/v.mp4''"] h r p
  have "(\<exists>w. fst (evu_process_url env_two_media ''https://example.org/meeting'') = Inr (Some w)
           \<and> ((\<forall>x\<in>set ?raw. evu_accepts env_two_media x \<longrightarrow> x = ''https://a.org/v.mp4'')
                \<longrightarrow> w = ''https://a.org/v.mp4''))
      \<and> (\<exists>res. fst (eev_process_url env_two_media ''https://example.org/meeting'') = Inr res
           \<and> ''https://a.org/v.mp4'' \<in> set (downloadable_videos res))"
    by (simp del: set_simps) blast
  with only h r show ?thesis
    by (auto simp del: set_simps)
qed

section \<open>The base of relative sources\<close>

text \<open>
  Claim C7, at the input where the code departs from it. The request for
  \<open>https://old.org/go\<close> is redirected to \<open>https://site.org/events/1\<close>, whose page has a
  \<open>video\<close> tag with the source \<open>/clip.mp4\<close>. extract_video_urls.py joins the source with
  the address that was asked for and finds \<open>https://old.org/clip.mp4\<close>;
  extract_embedded_videos.py joins it with \<open>response.url\<close>, the address the request ended
  at, and finds \<open>https://site.org/clip.mp4\<close>, as the claim has it.
\<close>

theorem redirected_page_base_evaluation:
  "requests_get env_redirect ''https://old.org/go''
     = Inr \<lparr>status_code = 200, resp_text = clip_html, resp_url = ''https://site.org/events/1''\<rparr>
   \<and> extract_video_url_from_webpage env_redirect ''https://old.org/go''
       = [''https://old.org/clip.mp4'']
   \<and> extract_video_urls_from_page env_redirect ''https://old.org/go''
       = [''https://site.org/clip.mp4'']"
  by code_simp

section \<open>Addresses in inline scripts\<close>


































end
